theory Spec2Isabelle
  imports Main "HOL-Library.AList" "HOL-Library.Product_Lexorder"
    "HOL-Library.List_Lexorder" "HOL-Library.Char_ord"
begin

section \<open>JavaScript values\<close>

text \<open>
  Documents, ledger entries and parsed webhook bodies are untyped JSON at run time, so they
  are modelled by one datatype of JavaScript values. Numbers are integers: every number the
  program computes with is a count, an offset or a number of seconds since the epoch. An
  object is an association list; reading a property takes the first binding of the key.
\<close>

datatype jsval =
    JUndefined
  | JNull
  | JBool bool
  | JNum int
  | JStr string
  | JArr "jsval list"
  | JObj "(string \<times> jsval) list"

text \<open>\<open>!v\<close> is \<open>\<not> truthy v\<close>: undefined, null, false, 0 and the empty string are falsy.\<close>

fun truthy :: "jsval \<Rightarrow> bool" where
  "truthy JUndefined = False"
| "truthy JNull = False"
| "truthy (JBool b) = b"
| "truthy (JNum n) = (n \<noteq> 0)"
| "truthy (JStr s) = (s \<noteq> [])"
| "truthy (JArr xs) = True"
| "truthy (JObj fs) = True"

text \<open>\<open>v[k]\<close> for a value that is neither null nor undefined (those throw, see the callers).\<close>

fun get_field :: "jsval \<Rightarrow> string \<Rightarrow> jsval" where
  "get_field (JObj fs) k = (case map_of fs k of Some v \<Rightarrow> v | None \<Rightarrow> JUndefined)"
| "get_field v k = JUndefined"

text \<open>\<open>v?.k\<close>: undefined when \<open>v\<close> is null or undefined.\<close>

fun opt_chain :: "jsval \<Rightarrow> string \<Rightarrow> jsval" where
  "opt_chain JUndefined k = JUndefined"
| "opt_chain JNull k = JUndefined"
| "opt_chain v k = get_field v k"

text \<open>\<open>v ?? d\<close>\<close>

fun nullish_or :: "jsval \<Rightarrow> jsval \<Rightarrow> jsval" where
  "nullish_or JUndefined d = d"
| "nullish_or JNull d = d"
| "nullish_or v d = v"

fun show_nat :: "nat \<Rightarrow> string" where
  "show_nat n =
     (if n < 10 then [''0123456789'' ! n]
      else show_nat (n div 10) @ [''0123456789'' ! (n mod 10)])"

definition show_int :: "int \<Rightarrow> string" where
  "show_int i = (if i < 0 then CHR ''-'' # show_nat (nat (- i)) else show_nat (nat i))"

fun join_comma :: "string list \<Rightarrow> string" where
  "join_comma [] = []"
| "join_comma [s] = s"
| "join_comma (s # t # ss) = s @ '','' @ join_comma (t # ss)"

text \<open>The string a value turns into inside a template literal \<open>`${v}`\<close>.\<close>

fun js_to_string :: "jsval \<Rightarrow> string" where
  "js_to_string JUndefined = ''undefined''"
| "js_to_string JNull = ''null''"
| "js_to_string (JBool b) = (if b then ''true'' else ''false'')"
| "js_to_string (JNum n) = show_int n"
| "js_to_string (JStr s) = s"
| "js_to_string (JArr xs) =
     join_comma (map (\<lambda>x. if x = JNull \<or> x = JUndefined then [] else js_to_string x) xs)"
| "js_to_string (JObj fs) = ''[object Object]''"

text \<open>\<open>v + n\<close> for a number \<open>n\<close>, as far as \<open>v\<close> can be a truthy value or 0.\<close>

fun js_plus :: "jsval \<Rightarrow> int \<Rightarrow> jsval" where
  "js_plus (JNum a) n = JNum (a + n)"
| "js_plus (JBool b) n = JNum ((if b then 1 else 0) + n)"
| "js_plus JNull n = JNum n"
| "js_plus v n = JStr (js_to_string v @ show_int n)"

section \<open>The world: document store and observable effects\<close>

datatype error = Err string

datatype level = Info | Warn | Error

type_synonym entry = "(string \<times> jsval) list"

record request =
  shopId :: int
  min_created :: jsval
  max_created :: jsval
  limit :: nat
  offset :: nat

text \<open>
  Every call that leaves the process is recorded, in order. A log call keeps its message
  text (a template literal is kept unexpanded) and the values it prints.
\<close>

datatype effect =
    Log level string "jsval list"
  | ApiCall request "int option"
  | Query string string
  | BatchCommit "(string \<times> jsval) list"
  | DocSet string jsval
  | CryptoVerify string string string

record world =
  store :: "(string \<times> jsval) list"
  trace :: "effect list"
  ticks :: nat

definition emit :: "effect \<Rightarrow> world \<Rightarrow> world" where
  "emit e w = w\<lparr>trace := trace w @ [e]\<rparr>"

definition logger :: "level \<Rightarrow> string \<Rightarrow> jsval list \<Rightarrow> world \<Rightarrow> world" where
  "logger l msg args w = emit (Log l msg args) w"

definition err_val :: "error \<Rightarrow> jsval" where
  "err_val e = (case e of Err m \<Rightarrow> JStr m)"

text \<open>
  What the program cannot decide itself is a field of the environment: the remote ledger
  API, storage failures, the clock, the configuration, and the library functions of the
  webhook (signature check, base64, JSON parser).
\<close>

record env =
  api :: "request \<Rightarrow> int option \<Rightarrow> error + entry list option"
  commit_failure :: "(string \<times> jsval) list \<Rightarrow> error option"
  query_failure :: "error option"
  set_failure :: "string \<Rightarrow> jsval \<Rightarrow> error option"
  clock :: "nat \<Rightarrow> int"
  config :: "string \<Rightarrow> string option"
  crypto_verify :: "string \<Rightarrow> string \<Rightarrow> string \<Rightarrow> bool"
  base64_decode :: "string \<Rightarrow> string"
  JSON_parse :: "string \<Rightarrow> jsval option"

text \<open>\<open>Date.now()\<close>: the \<open>n\<close>-th reading of the clock, in milliseconds.\<close>

definition Date_now :: "env \<Rightarrow> world \<Rightarrow> int \<times> world" where
  "Date_now env w = (clock env (ticks w), w\<lparr>ticks := Suc (ticks w)\<rparr>)"

subsection \<open>Firestore writes\<close>

text \<open>
  \<open>set(doc, data, {merge: true})\<close> creates the document or merges the data into it:
  a field of the data replaces the stored one, nested maps are merged field by field, and
  stored fields the data does not mention stay.
\<close>

fun merge_val :: "jsval \<Rightarrow> jsval \<Rightarrow> jsval"
  and merge_fields :: "(string \<times> jsval) list \<Rightarrow> (string \<times> jsval) list \<Rightarrow> (string \<times> jsval) list"
where
  "merge_val (JObj old) (JObj new) = JObj (merge_fields old new)"
| "merge_val old new = new"
| "merge_fields old [] = old"
| "merge_fields old ((k, v) # new) =
     merge_fields
       (AList.update k (case map_of old k of Some ov \<Rightarrow> merge_val ov v | None \<Rightarrow> v) old) new"

definition set_merge :: "string \<times> jsval \<Rightarrow> (string \<times> jsval) list \<Rightarrow> (string \<times> jsval) list" where
  "set_merge pd s =
     AList.update (fst pd)
       (case map_of s (fst pd) of Some old \<Rightarrow> merge_val old (snd pd) | None \<Rightarrow> snd pd) s"

definition apply_writes :: "(string \<times> jsval) list \<Rightarrow> (string \<times> jsval) list \<Rightarrow> (string \<times> jsval) list" where
  "apply_writes writes s = fold set_merge writes s"

text \<open>\<open>batch.commit()\<close>: all writes of the batch, or none and an error.\<close>

definition batch_commit :: "env \<Rightarrow> (string \<times> jsval) list \<Rightarrow> world \<Rightarrow> error option \<times> world" where
  "batch_commit env writes w =
     (case commit_failure env writes of
        Some e \<Rightarrow> (Some e, w)
      | None \<Rightarrow> (None, emit (BatchCommit writes) (w\<lparr>store := apply_writes writes (store w)\<rparr>)))"

section \<open>Ledger sync (functions/src/etsy/ledgerSync.ts)\<close>

text \<open>
  The class \<open>FirestoreSecurityDataStorage\<close> of the file is handed to the client library,
  which uses it inside its API calls; here it is part of the \<open>api\<close> field of the
  environment. A thrown error is a value \<open>Inl\<close> of the result, and a function whose loop
  may not end returns an option, with \<open>None\<close> for a run that never returns.
\<close>

definition has_entry_id :: "entry \<Rightarrow> bool" where
  "has_entry_id e = truthy (get_field (JObj e) ''entry_id'')"

text \<open>The callback of \<open>entries.filter\<close>, which warns about each entry it drops.\<close>

fun filter_valid :: "entry list \<Rightarrow> world \<Rightarrow> entry list \<times> world" where
  "filter_valid [] w = ([], w)"
| "filter_valid (e # es) w =
     (if \<not> truthy (get_field (JObj e) ''entry_id'')
      then filter_valid es (logger Warn ''Entry missing entry_id, skipping:'' [JObj e] w)
      else (case filter_valid es w of (vs, w') \<Rightarrow> (e # vs, w')))"

definition entry_path :: "entry \<Rightarrow> string" where
  "entry_path e = ''events/etsy/ledgerentry/'' @ js_to_string (get_field (JObj e) ''entry_id'')"

definition persistBatch :: "env \<Rightarrow> entry list \<Rightarrow> world \<Rightarrow> (error + nat) \<times> world" where
  "persistBatch env entries w =
     (if length entries = 0 then (Inr 0, w)
      else
        (case filter_valid entries w of (validEntries, w1) \<Rightarrow>
           if length validEntries = 0 then (Inr 0, w1)
           else
             (case batch_commit env (map (\<lambda>e. (entry_path e, JObj e)) validEntries) w1 of
                (Some e, w2) \<Rightarrow> (Inl e, w2)
              | (None, w2) \<Rightarrow>
                  (Inr (length validEntries),
                   logger Info ''Persisted ${validEntries.length} entries''
                     [JNum (int (length validEntries))] w2))))"

partial_function (option) processPage ::
  "env \<Rightarrow> int \<Rightarrow> jsval \<Rightarrow> jsval \<Rightarrow> nat \<Rightarrow> nat \<Rightarrow> world \<Rightarrow> ((error + nat) \<times> world) option"
where
  "processPage env shop minCreated maxCreated ofs totalPersisted w =
     (let w1 = logger Info ''Fetching ledger entries: offset=${offset}, limit=${limit}''
                 [JNum (int ofs), JNum 100] w;
          req = \<lparr>shopId = shop, min_created = minCreated, max_created = maxCreated,
                 limit = 100, offset = ofs\<rparr>;
          w2 = emit (ApiCall req (Some 0)) w1
      in case api env req (Some 0) of
           Inl e \<Rightarrow> Some (Inl e, w2)
         | Inr results \<Rightarrow>
             (let entries = (case results of Some es \<Rightarrow> es | None \<Rightarrow> []);
                  w3 = logger Info ''Received ${entries.length} entries''
                         [JNum (int (length entries))] w2
              in case persistBatch env entries w3 of
                   (Inl e, w4) \<Rightarrow> Some (Inl e, w4)
                 | (Inr persistedCount, w4) \<Rightarrow>
                     (let newTotal = totalPersisted + persistedCount
                      in if length entries = 0 \<or> length entries < 100
                         then Some (Inr newTotal, w4)
                         else processPage env shop minCreated maxCreated (ofs + 100) newTotal w4)))"

definition fetchAndPersistLedgerEntries ::
  "env \<Rightarrow> int \<Rightarrow> jsval \<Rightarrow> jsval \<Rightarrow> world \<Rightarrow> ((error + nat) \<times> world) option"
where
  "fetchAndPersistLedgerEntries env shop minCreated maxCreated w =
     (case processPage env shop minCreated maxCreated 0 0 w of
        None \<Rightarrow> None
      | Some (Inr totalPersisted, w1) \<Rightarrow>
          Some (Inr totalPersisted,
                logger Info ''Total entries persisted: ${totalPersisted}''
                  [JNum (int totalPersisted)] w1)
      | Some (Inl e, w1) \<Rightarrow>
          Some (Inl e,
                logger Error ''Error fetching and persisting ledger entries:'' [err_val e] w1))"

subsection \<open>The most recent stored entry\<close>

text \<open>
  The query \<open>collection(c).orderBy(f, "desc").limit(1).get()\<close> of the storage backend.
  It ranks the documents directly under \<open>c\<close> that have the field \<open>f\<close> (a document
  without the field is not part of an ordered query), first by the type of the value, then
  by the value.
\<close>

definition in_collection :: "string \<Rightarrow> string \<Rightarrow> bool" where
  "in_collection c p =
     (let n = length c + 1; ident = drop n p
      in take n p = c @ ''/'' \<and> ident \<noteq> [] \<and> CHR ''/'' \<notin> set ident)"

definition collection_docs :: "string \<Rightarrow> (string \<times> jsval) list \<Rightarrow> jsval list" where
  "collection_docs c s = map snd (filter (\<lambda>pd. in_collection c (fst pd)) s)"

definition field_path :: "string list \<Rightarrow> jsval \<Rightarrow> jsval" where
  "field_path ks d = fold (\<lambda>k v. get_field v k) ks d"

fun fs_key :: "jsval \<Rightarrow> nat \<times> int \<times> string" where
  "fs_key JUndefined = (0, 0, [])"
| "fs_key JNull = (0, 0, [])"
| "fs_key (JBool b) = (1, (if b then 1 else 0), [])"
| "fs_key (JNum n) = (2, n, [])"
| "fs_key (JStr s) = (3, 0, s)"
| "fs_key (JArr xs) = (4, 0, [])"
| "fs_key (JObj fs) = (5, 0, [])"

definition orderBy_desc_limit1 :: "string \<Rightarrow> string list \<Rightarrow> (string \<times> jsval) list \<Rightarrow> jsval list" where
  "orderBy_desc_limit1 c f s =
     take 1 (rev (sort_key (\<lambda>d. fs_key (field_path f d))
                    (filter (\<lambda>d. field_path f d \<noteq> JUndefined) (collection_docs c s))))"

definition latest_entry_query :: "env \<Rightarrow> world \<Rightarrow> (error + jsval list) \<times> world" where
  "latest_entry_query env w =
     (let w1 = emit (Query ''events/etsy/ledgerentry'' ''body.created_timestamp'') w
      in case query_failure env of
           Some e \<Rightarrow> (Inl e, w1)
         | None \<Rightarrow>
             (Inr (orderBy_desc_limit1 ''events/etsy/ledgerentry''
                     [''body'', ''created_timestamp''] (store w)), w1))"

text \<open>\<open>Math.floor(Date.now() / 1000) - 30 * 24 * 60 * 60\<close>\<close>

definition thirty_days_before :: "int \<Rightarrow> jsval" where
  "thirty_days_before now = JNum (now div 1000 - 30 * 24 * 60 * 60)"

definition getLastSyncTimestamp :: "env \<Rightarrow> world \<Rightarrow> (error + jsval) \<times> world" where
  "getLastSyncTimestamp env w =
     (case latest_entry_query env w of
        (Inr docs, w1) \<Rightarrow>
          (case docs of
             [] \<Rightarrow>
               (case Date_now env w1 of (now, w2) \<Rightarrow>
                  (Inr (thirty_days_before now),
                   logger Info ''No existing entries found, using default: ${thirtyDaysAgo}''
                     [thirty_days_before now] w2))
           | lastEntry # rest \<Rightarrow>
               (let timestamp = opt_chain (get_field lastEntry ''body'') ''created_timestamp''
                in if \<not> truthy timestamp
                   then (case Date_now env
                                (logger Warn
                                   ''Last entry missing created_timestamp, using 30 days ago'' [] w1)
                         of (now, w2) \<Rightarrow> (Inr (thirty_days_before now), w2))
                   else (Inr timestamp,
                         logger Info ''Last sync timestamp: ${timestamp}'' [timestamp] w1)))
      | (Inl e, w1) \<Rightarrow>
          (case Date_now env (logger Error ''Error getting last sync timestamp:'' [err_val e] w1)
           of (now, w2) \<Rightarrow> (Inr (thirty_days_before now), w2)))"

subsection \<open>The scheduled job\<close>

definition param_value :: "env \<Rightarrow> string \<Rightarrow> string \<Rightarrow> string" where
  "param_value env name dflt = (case config env name of Some v \<Rightarrow> v | None \<Rightarrow> dflt)"

definition is_space :: "char \<Rightarrow> bool" where
  "is_space c = (c \<in> set [CHR '' '', CHR 0x09, CHR 0x0A, CHR 0x0B, CHR 0x0C, CHR 0x0D])"

definition is_digit :: "char \<Rightarrow> bool" where
  "is_digit c = (c \<in> set ''0123456789'')"

definition digits_value :: "string \<Rightarrow> int" where
  "digits_value ds = foldl (\<lambda>a c. 10 * a + (of_char c - 48)) 0 ds"

text \<open>\<open>parseInt(s, 10)\<close> on ASCII text; \<open>None\<close> is NaN.\<close>

definition parseInt :: "string \<Rightarrow> int option" where
  "parseInt s =
     (let t = dropWhile is_space s;
          neg = (take 1 t = ''-'');
          u = (if take 1 t = ''-'' \<or> take 1 t = ''+'' then drop 1 t else t);
          ds = takeWhile is_digit u
      in if ds = [] then None
         else Some (if neg then - digits_value ds else digits_value ds))"

definition etsyLedgerSync_try :: "env \<Rightarrow> world \<Rightarrow> ((error + unit) \<times> world) option" where
  "etsyLedgerSync_try env w =
     (let shopIdStr = param_value env ''ETSY_SHOP_ID'' []
      in case parseInt shopIdStr of
           None \<Rightarrow> Some (Inl (Err ''Invalid ETSY_SHOP_ID configuration''), w)
         | Some shopIdNum \<Rightarrow>
             (case getLastSyncTimestamp env
                     (logger Info ''Using shop ID ${shopIdNum}'' [JNum shopIdNum] w) of
                (Inl e, w2) \<Rightarrow> Some (Inl e, w2)
              | (Inr lastSyncTimestamp, w2) \<Rightarrow>
                  (case Date_now env w2 of (now, w3) \<Rightarrow>
                     (let currentTimestamp = JNum (now div 1000);
                          w4 = logger Info
                                 ''Syncing entries from ${lastSyncTimestamp} to ${currentTimestamp}''
                                 [lastSyncTimestamp, currentTimestamp] w3
                      in case fetchAndPersistLedgerEntries env shopIdNum lastSyncTimestamp
                                currentTimestamp w4 of
                           None \<Rightarrow> None
                         | Some (Inl e, w5) \<Rightarrow> Some (Inl e, w5)
                         | Some (Inr persistedCount, w5) \<Rightarrow>
                             Some (Inr (),
                                   logger Info
                                     ''Etsy ledger sync completed: ${persistedCount} entries persisted''
                                     [JNum (int persistedCount)] w5)))))"

definition etsyLedgerSync :: "env \<Rightarrow> world \<Rightarrow> ((error + unit) \<times> world) option" where
  "etsyLedgerSync env w =
     (case etsyLedgerSync_try env (logger Info ''Starting Etsy ledger sync'' [] w) of
        None \<Rightarrow> None
      | Some (Inl e, w1) \<Rightarrow>
          Some (Inl e, logger Error ''Etsy ledger sync failed:'' [err_val e] w1)
      | Some (Inr u, w1) \<Rightarrow> Some (Inr u, w1))"

section \<open>Ledger sync, second variant (unnamed/part_001)\<close>

text \<open>
  The second variant of the file has an enable flag, returns null where the first falls
  back to thirty days ago, ends the window thirty days after its start, and calls the
  remote API without the second argument. Its functions carry the suffix \<open>_p1\<close>.
\<close>

definition getLastSyncTimestamp_p1 :: "env \<Rightarrow> world \<Rightarrow> (error + jsval) \<times> world" where
  "getLastSyncTimestamp_p1 env w =
     (case latest_entry_query env w of
        (Inr docs, w1) \<Rightarrow>
          (case docs of
             [] \<Rightarrow> (Inr JNull, logger Info ''No existing entries found'' [] w1)
           | lastEntry # rest \<Rightarrow>
               (let timestamp = opt_chain (get_field lastEntry ''body'') ''created_timestamp''
                in if \<not> truthy timestamp
                   then (Inr JNull, logger Warn ''Last entry missing created_timestamp'' [] w1)
                   else (Inr timestamp,
                         logger Info ''Last sync timestamp: ${timestamp}'' [timestamp] w1)))
      | (Inl e, w1) \<Rightarrow>
          (Inr JNull, logger Error ''Error getting last sync timestamp:'' [err_val e] w1))"

fun filter_valid_p1 :: "entry list \<Rightarrow> world \<Rightarrow> entry list \<times> world" where
  "filter_valid_p1 [] w = ([], w)"
| "filter_valid_p1 (e # es) w =
     (if \<not> truthy (get_field (JObj e) ''entry_id'')
      then filter_valid_p1 es (logger Warn ''Entry missing entry_id, skipping:'' [JObj e] w)
      else (case filter_valid_p1 es w of (vs, w') \<Rightarrow> (e # vs, w')))"

definition persistBatch_p1 :: "env \<Rightarrow> entry list \<Rightarrow> world \<Rightarrow> (error + nat) \<times> world" where
  "persistBatch_p1 env entries w =
     (if length entries = 0 then (Inr 0, w)
      else
        (case filter_valid_p1 entries w of (validEntries, w1) \<Rightarrow>
           if length validEntries = 0 then (Inr 0, w1)
           else
             (case batch_commit env (map (\<lambda>e. (entry_path e, JObj e)) validEntries) w1 of
                (Some e, w2) \<Rightarrow> (Inl e, w2)
              | (None, w2) \<Rightarrow>
                  (Inr (length validEntries),
                   logger Info ''Persisted ${validEntries.length} entries''
                     [JNum (int (length validEntries))] w2))))"

partial_function (option) processPage_p1 ::
  "env \<Rightarrow> int \<Rightarrow> jsval \<Rightarrow> jsval \<Rightarrow> nat \<Rightarrow> nat \<Rightarrow> world \<Rightarrow> ((error + nat) \<times> world) option"
where
  "processPage_p1 env shop minCreated maxCreated ofs totalPersisted w =
     (let w1 = logger Info ''Fetching ledger entries: offset=${offset}, limit=${limit}''
                 [JNum (int ofs), JNum 100] w;
          req = \<lparr>shopId = shop, min_created = minCreated, max_created = maxCreated,
                 limit = 100, offset = ofs\<rparr>;
          w2 = emit (ApiCall req None) w1
      in case api env req None of
           Inl e \<Rightarrow> Some (Inl e, w2)
         | Inr results \<Rightarrow>
             (let entries = (case results of Some es \<Rightarrow> es | None \<Rightarrow> []);
                  w3 = logger Info ''Received ${entries.length} entries''
                         [JNum (int (length entries))] w2
              in case persistBatch_p1 env entries w3 of
                   (Inl e, w4) \<Rightarrow> Some (Inl e, w4)
                 | (Inr persistedCount, w4) \<Rightarrow>
                     (let newTotal = totalPersisted + persistedCount
                      in if length entries = 0 \<or> length entries < 100
                         then Some (Inr newTotal, w4)
                         else processPage_p1 env shop minCreated maxCreated (ofs + 100) newTotal w4)))"

definition fetchAndPersistLedgerEntries_p1 ::
  "env \<Rightarrow> int \<Rightarrow> jsval \<Rightarrow> jsval \<Rightarrow> world \<Rightarrow> ((error + nat) \<times> world) option"
where
  "fetchAndPersistLedgerEntries_p1 env shop minCreated maxCreated w =
     (case processPage_p1 env shop minCreated maxCreated 0 0 w of
        None \<Rightarrow> None
      | Some (Inr totalPersisted, w1) \<Rightarrow>
          Some (Inr totalPersisted,
                logger Info ''Total entries persisted: ${totalPersisted}''
                  [JNum (int totalPersisted)] w1)
      | Some (Inl e, w1) \<Rightarrow>
          Some (Inl e,
                logger Error ''Error fetching and persisting ledger entries:'' [err_val e] w1))"

definition toLowerCase :: "string \<Rightarrow> string" where
  "toLowerCase s =
     map (\<lambda>c. case map_of (zip ''ABCDEFGHIJKLMNOPQRSTUVWXYZ'' ''abcdefghijklmnopqrstuvwxyz'') c of
                 Some l \<Rightarrow> l
               | None \<Rightarrow> c) s"

definition etsyLedgerSync_try_p1 :: "env \<Rightarrow> world \<Rightarrow> ((error + unit) \<times> world) option" where
  "etsyLedgerSync_try_p1 env w =
     (let shopIdStr = param_value env ''ETSY_SHOP_ID'' []
      in case parseInt shopIdStr of
           None \<Rightarrow> Some (Inl (Err ''Invalid ETSY_SHOP_ID configuration''), w)
         | Some shopIdNum \<Rightarrow>
             (case getLastSyncTimestamp_p1 env
                     (logger Info ''Using shop ID ${shopIdNum}'' [JNum shopIdNum] w) of
                (Inl e, w2) \<Rightarrow> Some (Inl e, w2)
              | (Inr r, w2) \<Rightarrow>
                  (let lastSyncTimestamp = nullish_or r (JNum 0);
                       w3 = (if lastSyncTimestamp = JNum 0
                             then logger Info
                                    ''Starting sync from Unix epoch (no previous entries)'' [] w2
                             else logger Info ''Starting sync from timestamp: ${lastSyncTimestamp}''
                                    [lastSyncTimestamp] w2);
                       thirtyDaysInSeconds = 30 * 24 * 60 * 60;
                       toTimestamp = js_plus lastSyncTimestamp thirtyDaysInSeconds;
                       w4 = logger Info ''Syncing entries from ${lastSyncTimestamp} to ${toTimestamp}''
                              [lastSyncTimestamp, toTimestamp] w3
                   in case fetchAndPersistLedgerEntries_p1 env shopIdNum lastSyncTimestamp
                             toTimestamp w4 of
                        None \<Rightarrow> None
                      | Some (Inl e, w5) \<Rightarrow> Some (Inl e, w5)
                      | Some (Inr persistedCount, w5) \<Rightarrow>
                          Some (Inr (),
                                logger Info
                                  ''Etsy ledger sync completed: ${persistedCount} entries persisted''
                                  [JNum (int persistedCount)] w5))))"

definition etsyLedgerSync_p1 :: "env \<Rightarrow> world \<Rightarrow> ((error + unit) \<times> world) option" where
  "etsyLedgerSync_p1 env w =
     (if toLowerCase (param_value env ''ETSY_SYNC_ENABLED'' ''false'') \<noteq> ''true''
      then Some (Inr (), logger Info ''Etsy ledger sync is disabled via configuration'' [] w)
      else
        (case etsyLedgerSync_try_p1 env (logger Info ''Starting Etsy ledger sync'' [] w) of
           None \<Rightarrow> None
         | Some (Inl e, w1) \<Rightarrow>
             Some (Inl e, logger Error ''Etsy ledger sync failed:'' [err_val e] w1)
         | Some (Inr u, w1) \<Rightarrow> Some (Inr u, w1)))"

section \<open>Webhook (functions/src/starling/webhook.ts and unnamed/part_000)\<close>

datatype header_value = Single string | Multi "string list"

record http_request =
  headers :: "(string \<times> header_value) list"
  rawBody :: string

text \<open>A response is a status and a JSON body, or no body after \<open>send()\<close>.\<close>

datatype response = Response nat "jsval option"

definition headers_val :: "(string \<times> header_value) list \<Rightarrow> jsval" where
  "headers_val hs =
     JObj (map (\<lambda>kv. (fst kv, case snd kv of Single s \<Rightarrow> JStr s | Multi vs \<Rightarrow> JArr (map JStr vs))) hs)"

text \<open>\<open>document.set(data)\<close> without merge replaces the document at the path.\<close>

definition doc_set :: "env \<Rightarrow> string \<Rightarrow> jsval \<Rightarrow> world \<Rightarrow> error option \<times> world" where
  "doc_set env path d w =
     (case set_failure env path d of
        Some e \<Rightarrow> (Some e, w)
      | None \<Rightarrow> (None, emit (DocSet path d) (w\<lparr>store := AList.update path d (store w)\<rparr>)))"

text \<open>
  \<open>headers[key]\<close> is undefined, a string or an array. The test
  \<open>!h || Array.isArray(h)\<close> holds for undefined, for an array and for the empty string.
\<close>

definition verifyEvent :: "env \<Rightarrow> http_request \<Rightarrow> world \<Rightarrow> bool \<times> world" where
  "verifyEvent env request w =
     (case map_of (headers request) ''x-hook-signature'' of
        None \<Rightarrow> (False, logger Error ''Missing or invalid X-Hook-Signature header'' [] w)
      | Some (Multi vs) \<Rightarrow>
          (False, logger Error ''Missing or invalid X-Hook-Signature header'' [] w)
      | Some (Single payloadSignatureBase64) \<Rightarrow>
          if payloadSignatureBase64 = []
          then (False, logger Error ''Missing or invalid X-Hook-Signature header'' [] w)
          else (crypto_verify env ''RSA-SHA512'' (rawBody request)
                  (base64_decode env payloadSignatureBase64),
                emit (CryptoVerify ''RSA-SHA512'' (rawBody request)
                        (base64_decode env payloadSignatureBase64)) w))"

definition starlingFeedItem :: "env \<Rightarrow> http_request \<Rightarrow> world \<Rightarrow> (error + response) \<times> world" where
  "starlingFeedItem env req w =
     (case verifyEvent env req w of (verified, w1) \<Rightarrow>
        if \<not> verified
        then (Inr (Response 400
                     (Some (JObj [(''error'',
                                   JStr ''Integrity of message signature could not be verified'')]))),
              w1)
        else
          (case JSON_parse env (rawBody req) of
             None \<Rightarrow> (Inl (Err ''SyntaxError''), w1)
           | Some eventBodyJson \<Rightarrow>
               if eventBodyJson = JNull then (Inl (Err ''TypeError''), w1)
               else
                 (let eventId = get_field eventBodyJson ''webhookEventUid''
                  in if \<not> truthy eventId
                     then (Inr (Response 400
                                  (Some (JObj [(''error'',
                                                JStr ''Missing webhookEventUid in payload'')]))),
                           logger Error ''Missing webhookEventUid in payload'' [] w1)
                     else
                       (case doc_set env (''events/starling/feeditem/'' @ js_to_string eventId)
                               (JObj [(''body'', eventBodyJson),
                                      (''headers'', headers_val (headers req))]) w1 of
                          (Some e, w2) \<Rightarrow> (Inl e, w2)
                        | (None, w2) \<Rightarrow> (Inr (Response 202 None), w2)))))"

definition verifyEvent_p0 :: "env \<Rightarrow> http_request \<Rightarrow> world \<Rightarrow> bool \<times> world" where
  "verifyEvent_p0 env request w =
     (case map_of (headers request) ''X-Hook-Signature'' of
        None \<Rightarrow> (False, logger Error ''Missing or invalid X-Hook-Signature header'' [] w)
      | Some (Multi vs) \<Rightarrow>
          (False, logger Error ''Missing or invalid X-Hook-Signature header'' [] w)
      | Some (Single payloadSignatureBase64) \<Rightarrow>
          if payloadSignatureBase64 = []
          then (False, logger Error ''Missing or invalid X-Hook-Signature header'' [] w)
          else (crypto_verify env ''RSA-SHA512'' (rawBody request)
                  (base64_decode env payloadSignatureBase64),
                emit (CryptoVerify ''RSA-SHA512'' (rawBody request)
                        (base64_decode env payloadSignatureBase64)) w))"


section \<open>Specification vocabulary\<close>

text \<open>The writes of a batch: one merge-write per entry that passes the filter.\<close>

definition ledger_writes :: "entry list \<Rightarrow> (string \<times> jsval) list" where
  "ledger_writes es = map (\<lambda>e. (entry_path e, JObj e)) (filter has_entry_id es)"

text \<open>One warning per dropped entry, in the order of the input, each carrying the entry.\<close>

definition dropped_warnings :: "entry list \<Rightarrow> effect list" where
  "dropped_warnings es =
     map (\<lambda>e. Log Warn ''Entry missing entry_id, skipping:'' [JObj e])
       (filter (\<lambda>e. \<not> has_entry_id e) es)"

definition persisted_effects :: "entry list \<Rightarrow> effect list" where
  "persisted_effects es =
     (if filter has_entry_id es = [] then []
      else [BatchCommit (ledger_writes es),
            Log Info ''Persisted ${validEntries.length} entries''
              [JNum (int (length (filter has_entry_id es)))]])"

text \<open>Projections of the trace.\<close>

fun is_crypto :: "effect \<Rightarrow> bool" where
  "is_crypto (CryptoVerify a b s) = True"
| "is_crypto e = False"

fun is_write :: "effect \<Rightarrow> bool" where
  "is_write (BatchCommit ws) = True"
| "is_write (DocSet p d) = True"
| "is_write e = False"

definition crypto_calls :: "effect list \<Rightarrow> effect list" where
  "crypto_calls t = filter is_crypto t"

definition writes_of :: "effect list \<Rightarrow> effect list" where
  "writes_of t = filter is_write t"

definition signature_error :: jsval where
  "signature_error = JObj [(''error'', JStr ''Integrity of message signature could not be verified'')]"

definition missing_uid_error :: jsval where
  "missing_uid_error = JObj [(''error'', JStr ''Missing webhookEventUid in payload'')]"

definition feeditem_path :: "jsval \<Rightarrow> string" where
  "feeditem_path body = ''events/starling/feeditem/'' @ js_to_string (get_field body ''webhookEventUid'')"

definition feeditem_doc :: "jsval \<Rightarrow> http_request \<Rightarrow> jsval" where
  "feeditem_doc body req = JObj [(''body'', body), (''headers'', headers_val (headers req))]"

text \<open>
  The run of the loop, page by page. Page \<open>i\<close> is what the remote API answers to the
  request at offset \<open>100 * i\<close>; a page is full when it has at least 100 records and
  short when it has fewer. \<open>persist_ok\<close> says that the commit of a page does not fail.
  \<open>page_effects\<close> are the effects of one iteration on a page that is fetched and persisted,
  \<open>page_calls\<close> its calls to the remote API and the store.
\<close>

fun is_api :: "effect \<Rightarrow> bool" where
  "is_api (ApiCall r f) = True"
| "is_api e = False"

fun is_external :: "effect \<Rightarrow> bool" where
  "is_external (Log l m a) = False"
| "is_external (CryptoVerify a b s) = False"
| "is_external e = True"

definition api_calls :: "effect list \<Rightarrow> effect list" where
  "api_calls t = filter is_api t"

definition external_calls :: "effect list \<Rightarrow> effect list" where
  "external_calls t = filter is_external t"

definition page_request :: "int \<Rightarrow> jsval \<Rightarrow> jsval \<Rightarrow> nat \<Rightarrow> request" where
  "page_request shop mn mx ofs =
     \<lparr>shopId = shop, min_created = mn, max_created = mx, limit = 100, offset = ofs\<rparr>"

definition results_or_empty :: "entry list option \<Rightarrow> entry list" where
  "results_or_empty r = (case r of Some es \<Rightarrow> es | None \<Rightarrow> [])"

definition page_fetched :: "env \<Rightarrow> int \<Rightarrow> jsval \<Rightarrow> jsval \<Rightarrow> nat \<Rightarrow> bool" where
  "page_fetched env shop mn mx i =
     (case api env (page_request shop mn mx (100 * i)) (Some 0) of Inr r \<Rightarrow> True | Inl e \<Rightarrow> False)"

definition page_entries :: "env \<Rightarrow> int \<Rightarrow> jsval \<Rightarrow> jsval \<Rightarrow> nat \<Rightarrow> entry list" where
  "page_entries env shop mn mx i =
     (case api env (page_request shop mn mx (100 * i)) (Some 0) of
        Inr r \<Rightarrow> results_or_empty r
      | Inl e \<Rightarrow> [])"

definition persist_ok :: "env \<Rightarrow> entry list \<Rightarrow> bool" where
  "persist_ok env es =
     (filter has_entry_id es = [] \<or> commit_failure env (ledger_writes es) = None)"

definition full_page :: "env \<Rightarrow> int \<Rightarrow> jsval \<Rightarrow> jsval \<Rightarrow> nat \<Rightarrow> bool" where
  "full_page env shop mn mx i =
     (page_fetched env shop mn mx i \<and> 100 \<le> length (page_entries env shop mn mx i))"

definition short_page :: "env \<Rightarrow> int \<Rightarrow> jsval \<Rightarrow> jsval \<Rightarrow> nat \<Rightarrow> bool" where
  "short_page env shop mn mx i =
     (page_fetched env shop mn mx i \<and> length (page_entries env shop mn mx i) < 100)"

definition persisted_count :: "env \<Rightarrow> int \<Rightarrow> jsval \<Rightarrow> jsval \<Rightarrow> nat \<Rightarrow> nat" where
  "persisted_count env shop mn mx k =
     sum_list (map (\<lambda>i. length (filter has_entry_id (page_entries env shop mn mx i))) [0..<k])"

definition page_effects :: "env \<Rightarrow> int \<Rightarrow> jsval \<Rightarrow> jsval \<Rightarrow> nat \<Rightarrow> effect list" where
  "page_effects env shop mn mx i =
     [Log Info ''Fetching ledger entries: offset=${offset}, limit=${limit}''
        [JNum (int (100 * i)), JNum 100],
      ApiCall (page_request shop mn mx (100 * i)) (Some 0),
      Log Info ''Received ${entries.length} entries''
        [JNum (int (length (page_entries env shop mn mx i)))]]
     @ dropped_warnings (page_entries env shop mn mx i)
     @ persisted_effects (page_entries env shop mn mx i)"

definition page_world :: "env \<Rightarrow> int \<Rightarrow> jsval \<Rightarrow> jsval \<Rightarrow> nat \<Rightarrow> world \<Rightarrow> world" where
  "page_world env shop mn mx i w =
     w\<lparr>store := apply_writes (ledger_writes (page_entries env shop mn mx i)) (store w),
       trace := trace w @ page_effects env shop mn mx i\<rparr>"

definition pages_world :: "env \<Rightarrow> int \<Rightarrow> jsval \<Rightarrow> jsval \<Rightarrow> nat \<Rightarrow> world \<Rightarrow> world" where
  "pages_world env shop mn mx k w = fold (page_world env shop mn mx) [0..<k] w"

definition page_calls :: "env \<Rightarrow> int \<Rightarrow> jsval \<Rightarrow> jsval \<Rightarrow> nat \<Rightarrow> effect list" where
  "page_calls env shop mn mx i =
     ApiCall (page_request shop mn mx (100 * i)) (Some 0) #
     (if filter has_entry_id (page_entries env shop mn mx i) = [] then []
      else [BatchCommit (ledger_writes (page_entries env shop mn mx i))])"

text \<open>
  Comparing the two variants of the loop. \<open>storage_outcome\<close> is what a run leaves
  behind: its result, the store and the sequence of writes. \<open>page_iteration\<close> is the
  body of \<open>processPage\<close> with the recursive call and the second argument of the API
  call as parameters; both variants unfold to it.
\<close>

definition same_storage :: "world \<Rightarrow> world \<Rightarrow> bool" where
  "same_storage w1 w2 = (store w1 = store w2 \<and> writes_of (trace w1) = writes_of (trace w2))"

definition storage_outcome ::
  "((error + nat) \<times> world) option \<Rightarrow> ((error + nat) \<times> (string \<times> jsval) list \<times> effect list) option"
where
  "storage_outcome r = map_option (\<lambda>p. (fst p, store (snd p), writes_of (trace (snd p)))) r"

definition page_iteration ::
  "int option \<Rightarrow> (nat \<Rightarrow> nat \<Rightarrow> world \<Rightarrow> ((error + nat) \<times> world) option) \<Rightarrow>
   env \<Rightarrow> int \<Rightarrow> jsval \<Rightarrow> jsval \<Rightarrow> nat \<Rightarrow> nat \<Rightarrow> world \<Rightarrow> ((error + nat) \<times> world) option"
where
  "page_iteration sec continue env shop minCreated maxCreated ofs totalPersisted w =
     (let w1 = logger Info ''Fetching ledger entries: offset=${offset}, limit=${limit}''
                 [JNum (int ofs), JNum 100] w;
          req = \<lparr>shopId = shop, min_created = minCreated, max_created = maxCreated,
                 limit = 100, offset = ofs\<rparr>;
          w2 = emit (ApiCall req sec) w1
      in case api env req sec of
           Inl e \<Rightarrow> Some (Inl e, w2)
         | Inr results \<Rightarrow>
             (let entries = (case results of Some es \<Rightarrow> es | None \<Rightarrow> []);
                  w3 = logger Info ''Received ${entries.length} entries''
                         [JNum (int (length entries))] w2
              in case persistBatch env entries w3 of
                   (Inl e, w4) \<Rightarrow> Some (Inl e, w4)
                 | (Inr persistedCount, w4) \<Rightarrow>
                     (let newTotal = totalPersisted + persistedCount
                      in if length entries = 0 \<or> length entries < 100
                         then Some (Inr newTotal, w4)
                         else continue (ofs + 100) newTotal w4)))"

text \<open>
  The cursor. \<open>entry_timestamp\<close> is what the resolver reads from a document,
  \<open>ranked_entries\<close> are the documents of the ledger collection that the query ranks.
\<close>

definition entry_timestamp :: "jsval \<Rightarrow> jsval" where
  "entry_timestamp d = opt_chain (get_field d ''body'') ''created_timestamp''"

definition ranked_entries :: "(string \<times> jsval) list \<Rightarrow> jsval list" where
  "ranked_entries s =
     filter (\<lambda>d. field_path [''body'', ''created_timestamp''] d \<noteq> JUndefined)
       (collection_docs ''events/etsy/ledgerentry'' s)"

section \<open>Test fixtures\<close>

text \<open>
  A mock environment: the remote API answers every request with an empty page, storage
  never fails, the clock stands at 1700000000000 ms, no configuration value is set, and the
  only valid signature is the text \<open>good\<close>.
\<close>

definition mock_env :: env where
  "mock_env =
     \<lparr>api = (\<lambda>r f. Inr (Some [])),
      commit_failure = (\<lambda>ws. None),
      query_failure = None,
      set_failure = (\<lambda>p d. None),
      clock = (\<lambda>n. 1700000000000),
      config = (\<lambda>k. None),
      crypto_verify = (\<lambda>a b s. s = ''good''),
      base64_decode = (\<lambda>s. s),
      JSON_parse = (\<lambda>s. None)\<rparr>"

definition empty_world :: world where
  "empty_world = \<lparr>store = [], trace = [], ticks = 0\<rparr>"

definition ledger_entry :: "int \<Rightarrow> int \<Rightarrow> entry" where
  "ledger_entry i t = [(''entry_id'', JNum i), (''created_timestamp'', JNum t)]"

text \<open>Ten records, of which the third has no identifier and the seventh a null one.\<close>

definition ten_entries :: "entry list" where
  "ten_entries =
     [ledger_entry 1 10, ledger_entry 2 20, [(''created_timestamp'', JNum 30)],
      ledger_entry 4 40, ledger_entry 5 50, ledger_entry 6 60,
      [(''entry_id'', JNull), (''created_timestamp'', JNum 70)],
      ledger_entry 8 80, ledger_entry 9 90, ledger_entry 10 100]"

definition hook_env :: env where
  \<open>hook_env = mock_env\<lparr>JSON_parse :=
     (\<lambda>s. if s = ''{"webhookEventUid":"evt-1","amount":5}''
          then Some (JObj [(''webhookEventUid'', JStr ''evt-1''), (''amount'', JNum 5)])
          else if s = ''{"webhookEventUid":""}''
          then Some (JObj [(''webhookEventUid'', JStr [])])
          else if s = ''{"amount":5}''
          then Some (JObj [(''amount'', JNum 5)])
          else None)\<rparr>\<close>

definition signed_request :: "string \<Rightarrow> http_request" where
  "signed_request body =
     \<lparr>headers = [(''content-type'', Single ''application/json''), (''x-hook-signature'', Single ''good'')],
      rawBody = body\<rparr>"

definition unsigned_request :: http_request where
  \<open>unsigned_request =
     \<lparr>headers = [(''content-type'', Single ''application/json'')],
      rawBody = ''{"webhookEventUid":"evt-1","amount":5}''\<rparr>\<close>



definition empty_uid_body :: string where
  \<open>empty_uid_body = ''{"webhookEventUid":""}''\<close>

definition no_uid_body :: string where
  \<open>no_uid_body = ''{"amount":5}''\<close>

definition event_body :: string where
  \<open>event_body = ''{"webhookEventUid":"evt-1","amount":5}''\<close>

definition numbered_entries :: "nat \<Rightarrow> nat \<Rightarrow> entry list" where
  "numbered_entries a n = map (\<lambda>i. ledger_entry (int i) 1700000000) [a..<a + n]"

definition paged_env :: env where
  "paged_env = mock_env\<lparr>api :=
     (\<lambda>r f. if offset r = 0 then Inr (Some (numbered_entries 1 100))
            else if offset r = 100 then Inr (Some (numbered_entries 101 100))
            else if offset r = 200 then Inr (Some (numbered_entries 201 37))
            else Inr None)\<rparr>"

definition endless_env :: env where
  "endless_env = mock_env\<lparr>api := (\<lambda>r f. Inr (Some (numbered_entries 1 100)))\<rparr>"

definition failing_env :: env where
  "failing_env = mock_env\<lparr>api :=
     (\<lambda>r f. if offset r = 0 then Inr (Some (numbered_entries 1 100))
            else Inl (Err ''ETIMEDOUT''))\<rparr>"

definition epoch_world :: world where
  "epoch_world =
     \<lparr>store = [(''events/etsy/ledgerentry/7'',
                 JObj [(''body'', JObj [(''entry_id'', JNum 7), (''created_timestamp'', JNum 0)])])],
      trace = [], ticks = 0\<rparr>"

definition synced_world :: world where
  "synced_world =
     \<lparr>store = [(''events/etsy/ledgerentry/7'',
                 JObj [(''body'', JObj [(''entry_id'', JNum 7), (''created_timestamp'', JNum 1690000000)])]),
               (''events/etsy/ledgerentry/9'',
                 JObj [(''body'', JObj [(''entry_id'', JNum 9), (''created_timestamp'', JNum 1699999999)])]),
               (''events/etsy/ledgerentry/8'',
                 JObj [(''body'', JObj [(''entry_id'', JNum 8), (''created_timestamp'', JNum 1695000000)])]),
               (''events/starling/feeditem/evt-1'',
                 JObj [(''body'', JObj [(''created_timestamp'', JNum 1800000000)])])],
      trace = [], ticks = 0\<rparr>"

definition query_down_env :: env where
  "query_down_env = mock_env\<lparr>query_failure := Some (Err ''UNAVAILABLE'')\<rparr>"

definition shop_env :: env where
  "shop_env = mock_env\<lparr>config :=
     (\<lambda>k. if k = ''ETSY_SHOP_ID'' then Some ''12345''
          else if k = ''ETSY_SYNC_ENABLED'' then Some ''false''
          else None)\<rparr>"

definition unflagged_env :: env where
  "unflagged_env = mock_env\<lparr>config :=
     (\<lambda>k. if k = ''ETSY_SHOP_ID'' then Some ''12345'' else None)\<rparr>"

definition shouting_env :: env where
  "shouting_env = mock_env\<lparr>config :=
     (\<lambda>k. if k = ''ETSY_SHOP_ID'' then Some ''12345''
          else if k = ''ETSY_SYNC_ENABLED'' then Some ''FALSE''
          else None)\<rparr>"

section \<open>Batch persistence\<close>

lemma has_entry_id_missing: "map_of e ''entry_id'' = None \<Longrightarrow> \<not> has_entry_id e"
  by (simp add: has_entry_id_def)

lemma filter_valid_eq:
  "filter_valid es w =
     (filter has_entry_id es,
      w\<lparr>trace := trace w @ map (\<lambda>e. Log Warn ''Entry missing entry_id, skipping:'' [JObj e])
                             (filter (\<lambda>e. \<not> has_entry_id e) es)\<rparr>)"
proof (induction es arbitrary: w)
  case Nil
  show ?case by simp
next
  case (Cons e es)
  show ?case
  proof (cases "has_entry_id e")
    case True
    then show ?thesis
      using Cons.IH [of w] by (simp add: has_entry_id_def)
  next
    case False
    then show ?thesis
      using Cons.IH [of "logger Warn ''Entry missing entry_id, skipping:'' [JObj e] w"]
      by (simp add: has_entry_id_def logger_def emit_def)
  qed
qed

lemma persistBatch_ok:
  assumes "commit_failure env (ledger_writes es) = None"
  shows "persistBatch env es w =
     (Inr (length (filter has_entry_id es)),
      w\<lparr>store := apply_writes (ledger_writes es) (store w),
        trace := trace w @ dropped_warnings es @ persisted_effects es\<rparr>)"
  using assms
  by (cases es)
     (simp_all add: persistBatch_def filter_valid_eq batch_commit_def ledger_writes_def
        dropped_warnings_def persisted_effects_def logger_def emit_def apply_writes_def)

text \<open>
  C4. \<open>persistBatch\<close> returns 0 and leaves the world as it is on the empty list. A record
  without the \<open>entry_id\<close> field does not pass the filter. When the commit succeeds, the
  result is the number of records that pass the filter, which is at most the number of
  input records; the store receives exactly the writes of those records; and the trace
  grows by one warning for each dropped record, followed by the commit.
\<close>

theorem persistBatch_filters_and_counts:
  "persistBatch env [] w = (Inr 0, w) \<and>
   (\<forall>e \<in> set entries. map_of e ''entry_id'' = None \<longrightarrow> \<not> has_entry_id e) \<and>
   length (filter has_entry_id entries) \<le> length entries \<and>
   (commit_failure env (ledger_writes entries) = None \<longrightarrow>
      persistBatch env entries w =
        (Inr (length (filter has_entry_id entries)),
         w\<lparr>store := apply_writes (ledger_writes entries) (store w),
           trace := trace w @ dropped_warnings entries @ persisted_effects entries\<rparr>))"
  using persistBatch_ok [of env entries w]
  by (simp add: persistBatch_def has_entry_id_missing)

theorem persistBatch_filters_and_counts_witness:
  "commit_failure mock_env (ledger_writes ten_entries) = None \<and>
   length ten_entries = 10 \<and>
   [(''created_timestamp'', JNum 30)] \<in> set ten_entries \<and>
   map_of [(''created_timestamp'', JNum 30)] ''entry_id'' = None \<and>
   fst (persistBatch mock_env ten_entries empty_world) = Inr 8 \<and>
   map fst (store (snd (persistBatch mock_env ten_entries empty_world))) =
     [''events/etsy/ledgerentry/1'', ''events/etsy/ledgerentry/2'',
      ''events/etsy/ledgerentry/4'', ''events/etsy/ledgerentry/5'',
      ''events/etsy/ledgerentry/6'', ''events/etsy/ledgerentry/8'',
      ''events/etsy/ledgerentry/9'', ''events/etsy/ledgerentry/10''] \<and>
   dropped_warnings ten_entries =
     [Log Warn ''Entry missing entry_id, skipping:'' [JObj [(''created_timestamp'', JNum 30)]],
      Log Warn ''Entry missing entry_id, skipping:''
        [JObj [(''entry_id'', JNull), (''created_timestamp'', JNum 70)]]]"
  using persistBatch_filters_and_counts [of mock_env empty_world ten_entries]
  by (simp add: mock_env_def empty_world_def ten_entries_def ledger_entry_def ledger_writes_def
        dropped_warnings_def persisted_effects_def has_entry_id_def entry_path_def
        apply_writes_def set_merge_def show_int_def)

section \<open>Signature verifier\<close>

lemma crypto_calls_logger: "crypto_calls (trace (logger l m a w)) = crypto_calls (trace w)"
  by (simp add: crypto_calls_def logger_def emit_def)

lemma crypto_calls_emit:
  "crypto_calls (trace (emit e w)) = crypto_calls (trace w) @ (if is_crypto e then [e] else [])"
  by (simp add: crypto_calls_def emit_def)





section \<open>Webhook ingestion\<close>

lemma writes_of_logger: "writes_of (trace (logger l m a w)) = writes_of (trace w)"
  by (simp add: writes_of_def logger_def emit_def)

lemma verifyEvent_store: "store (snd (verifyEvent env r w)) = store w"
  by (simp add: verifyEvent_def logger_def emit_def split: option.splits header_value.splits)

lemma verifyEvent_writes: "writes_of (trace (snd (verifyEvent env r w))) = writes_of (trace w)"
  by (simp add: verifyEvent_def logger_def emit_def writes_of_def
        split: option.splits header_value.splits)

lemma feeditem_rejected:
  assumes "\<not> fst (verifyEvent env req w)"
  shows "starlingFeedItem env req w = (Inr (Response 400 (Some signature_error)), snd (verifyEvent env req w))"
  using assms by (simp add: starlingFeedItem_def signature_error_def split_beta)

lemma feeditem_no_uid:
  assumes "fst (verifyEvent env req w)" "JSON_parse env (rawBody req) = Some body" "body \<noteq> JNull"
    "\<not> truthy (get_field body ''webhookEventUid'')"
  shows "starlingFeedItem env req w =
    (Inr (Response 400 (Some missing_uid_error)),
     logger Error ''Missing webhookEventUid in payload'' [] (snd (verifyEvent env req w)))"
  using assms by (simp add: starlingFeedItem_def missing_uid_error_def split_beta Let_def)

lemma feeditem_accepted:
  assumes "fst (verifyEvent env req w)" "JSON_parse env (rawBody req) = Some body" "body \<noteq> JNull"
    "truthy (get_field body ''webhookEventUid'')"
    "set_failure env (feeditem_path body) (feeditem_doc body req) = None"
  shows "starlingFeedItem env req w =
    (Inr (Response 202 None),
     emit (DocSet (feeditem_path body) (feeditem_doc body req))
       ((snd (verifyEvent env req w))
          \<lparr>store := AList.update (feeditem_path body) (feeditem_doc body req)
                      (store (snd (verifyEvent env req w)))\<rparr>))"
  using assms
  by (simp add: starlingFeedItem_def doc_set_def feeditem_path_def feeditem_doc_def
        split_beta Let_def)

lemma feeditem_unparsed:
  assumes "fst (verifyEvent env req w)"
    "JSON_parse env (rawBody req) = None \<or> JSON_parse env (rawBody req) = Some JNull"
  shows "starlingFeedItem env req w =
    (Inl (Err (if JSON_parse env (rawBody req) = None then ''SyntaxError'' else ''TypeError'')),
     snd (verifyEvent env req w))"
  using assms by (auto simp add: starlingFeedItem_def split_beta)

text \<open>
  C2, as amended. A request whose signature is not verified gets 400 with an error body and
  nothing is written. A verified request whose body parses to JSON (other than null) with a
  missing or falsy \<open>webhookEventUid\<close> gets 400 with an error body and nothing is
  written. A verified request with a truthy \<open>webhookEventUid\<close>, when the write
  succeeds, gets 202 without a body, and exactly one document is written, at the path of
  the identifier, holding the parsed body and the headers. A verified request whose body is
  not JSON, or is the JSON null, makes the handler throw before any write.
\<close>

theorem starlingFeedItem_responses:
  "(\<not> fst (verifyEvent env req w) \<longrightarrow>
      fst (starlingFeedItem env req w) = Inr (Response 400 (Some signature_error)) \<and>
      store (snd (starlingFeedItem env req w)) = store w \<and>
      writes_of (trace (snd (starlingFeedItem env req w))) = writes_of (trace w)) \<and>
   (fst (verifyEvent env req w) \<and> JSON_parse env (rawBody req) = Some body \<and> body \<noteq> JNull \<and>
    \<not> truthy (get_field body ''webhookEventUid'') \<longrightarrow>
      fst (starlingFeedItem env req w) = Inr (Response 400 (Some missing_uid_error)) \<and>
      store (snd (starlingFeedItem env req w)) = store w \<and>
      writes_of (trace (snd (starlingFeedItem env req w))) = writes_of (trace w)) \<and>
   (fst (verifyEvent env req w) \<and> JSON_parse env (rawBody req) = Some body \<and> body \<noteq> JNull \<and>
    truthy (get_field body ''webhookEventUid'') \<and>
    set_failure env (feeditem_path body) (feeditem_doc body req) = None \<longrightarrow>
      fst (starlingFeedItem env req w) = Inr (Response 202 None) \<and>
      store (snd (starlingFeedItem env req w)) =
        AList.update (feeditem_path body) (feeditem_doc body req) (store w) \<and>
      writes_of (trace (snd (starlingFeedItem env req w))) =
        writes_of (trace w) @ [DocSet (feeditem_path body) (feeditem_doc body req)]) \<and>
   (fst (verifyEvent env req w) \<and>
    (JSON_parse env (rawBody req) = None \<or> JSON_parse env (rawBody req) = Some JNull) \<longrightarrow>
      (\<exists>e. fst (starlingFeedItem env req w) = Inl e) \<and>
      store (snd (starlingFeedItem env req w)) = store w \<and>
      writes_of (trace (snd (starlingFeedItem env req w))) = writes_of (trace w))"
proof (intro conjI impI)
  assume a: "\<not> fst (verifyEvent env req w)"
  note r = feeditem_rejected [OF a]
  show "fst (starlingFeedItem env req w) = Inr (Response 400 (Some signature_error))"
    by (simp add: r)
  show "store (snd (starlingFeedItem env req w)) = store w"
    by (simp add: r verifyEvent_store)
  show "writes_of (trace (snd (starlingFeedItem env req w))) = writes_of (trace w)"
    by (simp add: r verifyEvent_writes)
next
  assume a: "fst (verifyEvent env req w) \<and> JSON_parse env (rawBody req) = Some body \<and>
    body \<noteq> JNull \<and> \<not> truthy (get_field body ''webhookEventUid'')"
  then have r: "starlingFeedItem env req w =
    (Inr (Response 400 (Some missing_uid_error)),
     logger Error ''Missing webhookEventUid in payload'' [] (snd (verifyEvent env req w)))"
    using feeditem_no_uid [of env req w body] by blast
  show "fst (starlingFeedItem env req w) = Inr (Response 400 (Some missing_uid_error))"
    by (simp add: r)
  show "store (snd (starlingFeedItem env req w)) = store w"
    by (simp add: r verifyEvent_store logger_def emit_def)
  show "writes_of (trace (snd (starlingFeedItem env req w))) = writes_of (trace w)"
    by (simp add: r verifyEvent_writes writes_of_logger)
next
  assume a: "fst (verifyEvent env req w) \<and> JSON_parse env (rawBody req) = Some body \<and>
    body \<noteq> JNull \<and> truthy (get_field body ''webhookEventUid'') \<and>
    set_failure env (feeditem_path body) (feeditem_doc body req) = None"
  then have r: "starlingFeedItem env req w =
    (Inr (Response 202 None),
     emit (DocSet (feeditem_path body) (feeditem_doc body req))
       ((snd (verifyEvent env req w))
          \<lparr>store := AList.update (feeditem_path body) (feeditem_doc body req)
                      (store (snd (verifyEvent env req w)))\<rparr>))"
    using feeditem_accepted [of env req w body] by blast
  show "fst (starlingFeedItem env req w) = Inr (Response 202 None)"
    by (simp add: r)
  show "store (snd (starlingFeedItem env req w)) =
        AList.update (feeditem_path body) (feeditem_doc body req) (store w)"
    by (simp add: r verifyEvent_store emit_def)
  show "writes_of (trace (snd (starlingFeedItem env req w))) =
        writes_of (trace w) @ [DocSet (feeditem_path body) (feeditem_doc body req)]"
    using verifyEvent_writes [of env req w] by (simp add: r emit_def writes_of_def)
next
  assume a: "fst (verifyEvent env req w) \<and>
    (JSON_parse env (rawBody req) = None \<or> JSON_parse env (rawBody req) = Some JNull)"
  then have r: "starlingFeedItem env req w =
    (Inl (Err (if JSON_parse env (rawBody req) = None then ''SyntaxError'' else ''TypeError'')),
     snd (verifyEvent env req w))"
    using feeditem_unparsed [of env req w] by blast
  show "\<exists>e. fst (starlingFeedItem env req w) = Inl e"
    by (simp add: r)
  show "store (snd (starlingFeedItem env req w)) = store w"
    by (simp add: r verifyEvent_store)
  show "writes_of (trace (snd (starlingFeedItem env req w))) = writes_of (trace w)"
    by (simp add: r verifyEvent_writes)
qed

theorem starlingFeedItem_responses_witness:
  "\<not> fst (verifyEvent hook_env unsigned_request empty_world) \<and>
   fst (starlingFeedItem hook_env unsigned_request empty_world) =
     Inr (Response 400 (Some signature_error)) \<and>
   store (snd (starlingFeedItem hook_env unsigned_request empty_world)) = [] \<and>
   fst (verifyEvent hook_env (signed_request no_uid_body) empty_world) \<and>
   JSON_parse hook_env (rawBody (signed_request no_uid_body)) = Some (JObj [(''amount'', JNum 5)]) \<and>
   \<not> truthy (get_field (JObj [(''amount'', JNum 5)]) ''webhookEventUid'') \<and>
   fst (starlingFeedItem hook_env (signed_request no_uid_body) empty_world) =
     Inr (Response 400 (Some missing_uid_error)) \<and>
   store (snd (starlingFeedItem hook_env (signed_request no_uid_body) empty_world)) = [] \<and>
   fst (verifyEvent hook_env (signed_request event_body) empty_world) \<and>
   JSON_parse hook_env (rawBody (signed_request event_body)) =
     Some (JObj [(''webhookEventUid'', JStr ''evt-1''), (''amount'', JNum 5)]) \<and>
   fst (starlingFeedItem hook_env (signed_request event_body) empty_world) =
     Inr (Response 202 None) \<and>
   map fst (store (snd (starlingFeedItem hook_env (signed_request event_body) empty_world))) =
     [''events/starling/feeditem/evt-1''] \<and>
   fst (verifyEvent hook_env (signed_request ''not json'') empty_world) \<and>
   JSON_parse hook_env (rawBody (signed_request ''not json'')) = None \<and>
   fst (starlingFeedItem hook_env (signed_request ''not json'') empty_world) =
     Inl (Err ''SyntaxError'') \<and>
   store (snd (starlingFeedItem hook_env (signed_request ''not json'') empty_world)) = []"
  using
    starlingFeedItem_responses [where env = hook_env and req = unsigned_request
      and w = empty_world]
    starlingFeedItem_responses [where env = hook_env and req = "signed_request no_uid_body"
      and w = empty_world and body = "JObj [(''amount'', JNum 5)]"]
    starlingFeedItem_responses [where env = hook_env and req = "signed_request event_body"
      and w = empty_world
      and body = "JObj [(''webhookEventUid'', JStr ''evt-1''), (''amount'', JNum 5)]"]
    starlingFeedItem_responses [where env = hook_env and req = "signed_request ''not json''"
      and w = empty_world]
  by (simp add: hook_env_def mock_env_def unsigned_request_def signed_request_def
        empty_world_def no_uid_body_def event_body_def verifyEvent_def feeditem_path_def
        feeditem_doc_def logger_def emit_def starlingFeedItem_def doc_set_def
        signature_error_def missing_uid_error_def)

text \<open>
  C2, as stated, fails: a verified request whose body has the field \<open>webhookEventUid\<close>
  with the empty string as value is answered with 400 and not stored, and a verified request
  whose body is not JSON gets no response from the handler at all.
\<close>

theorem starlingFeedItem_counterexample:
  "fst (verifyEvent hook_env (signed_request empty_uid_body) empty_world) \<and>
   JSON_parse hook_env (rawBody (signed_request empty_uid_body)) =
     Some (JObj [(''webhookEventUid'', JStr [])]) \<and>
   map_of [(''webhookEventUid'', JStr [])] ''webhookEventUid'' = Some (JStr []) \<and>
   fst (starlingFeedItem hook_env (signed_request empty_uid_body) empty_world) =
     Inr (Response 400 (Some missing_uid_error)) \<and>
   store (snd (starlingFeedItem hook_env (signed_request empty_uid_body) empty_world)) = [] \<and>
   fst (verifyEvent hook_env (signed_request ''not json'') empty_world) \<and>
   fst (starlingFeedItem hook_env (signed_request ''not json'') empty_world) =
     Inl (Err ''SyntaxError'')"
  by (simp add: hook_env_def mock_env_def signed_request_def empty_world_def
        empty_uid_body_def verifyEvent_def starlingFeedItem_def missing_uid_error_def
        logger_def emit_def)



lemma verifyEvent_result_any_world: "fst (verifyEvent env r w') = fst (verifyEvent env r w)"
  by (simp add: verifyEvent_def split: option.splits header_value.splits)

lemma verifyEvent_p0_store: "store (snd (verifyEvent_p0 env r w)) = store w"
  by (simp add: verifyEvent_p0_def logger_def emit_def split: option.splits header_value.splits)



lemma one_binding:
  "distinct (map fst s) \<Longrightarrow> map_of s k = Some v \<Longrightarrow> length (filter (\<lambda>pd. fst pd = k) s) = 1"
proof (induction s)
  case Nil
  then show ?case by simp
next
  case (Cons a s)
  show ?case
  proof (cases "fst a = k")
    case True
    from Cons.prems(1) True have "k \<notin> fst ` set s"
      by simp
    then have "\<forall>pd \<in> set s. fst pd \<noteq> k"
      by blast
    then have "filter (\<lambda>pd. fst pd = k) s = []"
      by (simp add: filter_empty_conv)
    with True show ?thesis by simp
  next
    case False
    with Cons show ?thesis by (cases a) auto
  qed
qed

text \<open>
  C7. When a delivery is accepted (202), delivering the same request again is accepted
  again and writes to the same path a second time; the second write leaves the store as the
  first delivery left it, and the store holds exactly one document at the path of the event
  identifier: the body and headers of the request.
\<close>

theorem redelivery_overwrites:
  assumes "fst (starlingFeedItem env req w) = Inr (Response 202 None)"
    and "distinct (map fst (store w))"
  shows "\<exists>body.
    JSON_parse env (rawBody req) = Some body \<and>
    fst (starlingFeedItem env req (snd (starlingFeedItem env req w))) = Inr (Response 202 None) \<and>
    store (snd (starlingFeedItem env req (snd (starlingFeedItem env req w)))) =
      store (snd (starlingFeedItem env req w)) \<and>
    map_of (store (snd (starlingFeedItem env req (snd (starlingFeedItem env req w)))))
      (feeditem_path body) = Some (feeditem_doc body req) \<and>
    length (filter (\<lambda>pd. fst pd = feeditem_path body)
      (store (snd (starlingFeedItem env req (snd (starlingFeedItem env req w)))))) = 1 \<and>
    writes_of (trace (snd (starlingFeedItem env req (snd (starlingFeedItem env req w))))) =
      writes_of (trace w) @
      [DocSet (feeditem_path body) (feeditem_doc body req),
       DocSet (feeditem_path body) (feeditem_doc body req)]"
proof -
  have v: "fst (verifyEvent env req w)"
    using assms(1) by (auto simp: starlingFeedItem_def split_beta split: if_splits)
  then obtain body where b: "JSON_parse env (rawBody req) = Some body"
    using assms(1) by (auto simp: starlingFeedItem_def split_beta split: if_splits option.splits)
  have n: "body \<noteq> JNull" and t: "truthy (get_field body ''webhookEventUid'')"
    using assms(1) v b by (auto simp: starlingFeedItem_def split_beta Let_def split: if_splits)
  have f: "set_failure env (feeditem_path body) (feeditem_doc body req) = None"
    using assms(1) v b n t
    by (auto simp: starlingFeedItem_def doc_set_def feeditem_path_def feeditem_doc_def
          split_beta Let_def split: if_splits option.splits)
  let ?w1 = "snd (starlingFeedItem env req w)"
  have v1: "fst (verifyEvent env req ?w1)"
    using v verifyEvent_result_any_world [of env req ?w1 w] by simp
  note r1 = feeditem_accepted [OF v b n t f]
  note r2 = feeditem_accepted [OF v1 b n t f]
  have s1: "store ?w1 = AList.update (feeditem_path body) (feeditem_doc body req) (store w)"
    by (simp add: r1 emit_def verifyEvent_store)
  have a2: "fst (starlingFeedItem env req ?w1) = Inr (Response 202 None)"
    by (simp add: r2)
  have s2: "store (snd (starlingFeedItem env req ?w1)) =
      AList.update (feeditem_path body) (feeditem_doc body req) (store ?w1)"
    by (simp add: r2 emit_def verifyEvent_store)
  have e: "store (snd (starlingFeedItem env req ?w1)) = store ?w1"
    by (simp add: s2 s1)
  have d: "distinct (map fst (store ?w1))"
    by (simp add: s1 distinct_update assms(2))
  have m: "map_of (store ?w1) (feeditem_path body) = Some (feeditem_doc body req)"
    by (simp add: s1 update_conv')
  have t1: "writes_of (trace ?w1) =
      writes_of (trace w) @ [DocSet (feeditem_path body) (feeditem_doc body req)]"
    using verifyEvent_writes [of env req w] by (simp add: r1 emit_def writes_of_def)
  have t2: "writes_of (trace (snd (starlingFeedItem env req ?w1))) =
      writes_of (trace ?w1) @ [DocSet (feeditem_path body) (feeditem_doc body req)]"
    using verifyEvent_writes [of env req ?w1] by (simp add: r2 emit_def writes_of_def)
  show ?thesis
    using b a2 e m one_binding [OF d m] t1 t2 by auto
qed

theorem redelivery_overwrites_witness:
  "fst (starlingFeedItem hook_env (signed_request event_body) empty_world) =
     Inr (Response 202 None) \<and>
   distinct (map fst (store empty_world)) \<and>
   fst (starlingFeedItem hook_env (signed_request event_body)
          (snd (starlingFeedItem hook_env (signed_request event_body) empty_world))) =
     Inr (Response 202 None) \<and>
   store (snd (starlingFeedItem hook_env (signed_request event_body)
                 (snd (starlingFeedItem hook_env (signed_request event_body) empty_world)))) =
     [(''events/starling/feeditem/evt-1'',
       feeditem_doc (JObj [(''webhookEventUid'', JStr ''evt-1''), (''amount'', JNum 5)])
         (signed_request event_body))]"
  using redelivery_overwrites [of hook_env "signed_request event_body" empty_world]
  by (simp add: hook_env_def mock_env_def signed_request_def empty_world_def event_body_def
        verifyEvent_def feeditem_path_def feeditem_doc_def logger_def emit_def
        starlingFeedItem_def doc_set_def Let_def)

section \<open>Paginated fetch-and-persist loop\<close>

lemma persistBatch_ok':
  assumes "persist_ok env es"
  shows "persistBatch env es w =
     (Inr (length (filter has_entry_id es)),
      w\<lparr>store := apply_writes (ledger_writes es) (store w),
        trace := trace w @ dropped_warnings es @ persisted_effects es\<rparr>)"
proof (cases "filter has_entry_id es = []")
  case True
  then show ?thesis
    by (cases es)
       (simp_all add: persistBatch_def filter_valid_eq ledger_writes_def dropped_warnings_def
          persisted_effects_def apply_writes_def)
next
  case False
  with assms have "commit_failure env (ledger_writes es) = None"
    by (simp add: persist_ok_def)
  then show ?thesis by (rule persistBatch_ok)
qed

lemma processPage_fetch_error:
  assumes "api env (page_request shop mn mx ofs) (Some 0) = Inl e"
  shows "processPage env shop mn mx ofs tot w =
    Some (Inl e,
      w\<lparr>trace := trace w @
          [Log Info ''Fetching ledger entries: offset=${offset}, limit=${limit}''
             [JNum (int ofs), JNum 100],
           ApiCall (page_request shop mn mx ofs) (Some 0)]\<rparr>)"
  using assms
  by (subst processPage.simps) (simp add: page_request_def logger_def emit_def Let_def)

lemma processPage_page:
  assumes "api env (page_request shop mn mx ofs) (Some 0) = Inr r"
  shows "processPage env shop mn mx ofs tot w =
    (case persistBatch env (results_or_empty r)
            (w\<lparr>trace := trace w @
               [Log Info ''Fetching ledger entries: offset=${offset}, limit=${limit}''
                  [JNum (int ofs), JNum 100],
                ApiCall (page_request shop mn mx ofs) (Some 0),
                Log Info ''Received ${entries.length} entries''
                  [JNum (int (length (results_or_empty r)))]]\<rparr>) of
       (Inl e, w4) \<Rightarrow> Some (Inl e, w4)
     | (Inr c, w4) \<Rightarrow>
         if length (results_or_empty r) < 100 then Some (Inr (tot + c), w4)
         else processPage env shop mn mx (ofs + 100) (tot + c) w4)"
  using assms
  by (subst processPage.simps)
     (auto simp add: page_request_def logger_def emit_def results_or_empty_def
        Let_def split: prod.splits sum.splits)

lemma processPage_full_page:
  assumes "full_page env shop mn mx i" and "persist_ok env (page_entries env shop mn mx i)"
  shows "processPage env shop mn mx (100 * i) tot w =
    processPage env shop mn mx (100 * Suc i)
      (tot + length (filter has_entry_id (page_entries env shop mn mx i)))
      (page_world env shop mn mx i w)"
proof -
  from assms obtain r where r: "api env (page_request shop mn mx (100 * i)) (Some 0) = Inr r"
    by (auto simp: full_page_def page_fetched_def split: sum.splits)
  then have es: "page_entries env shop mn mx i = results_or_empty r"
    by (simp add: page_entries_def)
  from assms es have len: "\<not> length (results_or_empty r) < 100"
    and ok: "persist_ok env (results_or_empty r)"
    by (simp_all add: full_page_def)
  have "100 * i + 100 = 100 * Suc i"
    by simp
  then show ?thesis
    by (simp add: processPage_page [OF r] persistBatch_ok' [OF ok] len es page_world_def
          page_effects_def del: mult_Suc_right)
qed

lemma processPage_short_page:
  assumes "short_page env shop mn mx i" and "persist_ok env (page_entries env shop mn mx i)"
  shows "processPage env shop mn mx (100 * i) tot w =
    Some (Inr (tot + length (filter has_entry_id (page_entries env shop mn mx i))),
          page_world env shop mn mx i w)"
proof -
  from assms obtain r where r: "api env (page_request shop mn mx (100 * i)) (Some 0) = Inr r"
    by (auto simp: short_page_def page_fetched_def split: sum.splits)
  then have es: "page_entries env shop mn mx i = results_or_empty r"
    by (simp add: page_entries_def)
  from assms es have len: "length (results_or_empty r) < 100"
    and ok: "persist_ok env (results_or_empty r)"
    by (simp_all add: short_page_def)
  show ?thesis
    by (simp add: processPage_page [OF r] persistBatch_ok' [OF ok] len es page_world_def
          page_effects_def)
qed

lemma processPage_prefix:
  assumes "\<forall>i<k. full_page env shop mn mx i \<and> persist_ok env (page_entries env shop mn mx i)"
  shows "processPage env shop mn mx 0 0 w =
    processPage env shop mn mx (100 * k) (persisted_count env shop mn mx k)
      (pages_world env shop mn mx k w)"
  using assms
proof (induction k)
  case 0
  show ?case by (simp add: persisted_count_def pages_world_def)
next
  case (Suc k)
  then have "processPage env shop mn mx 0 0 w =
    processPage env shop mn mx (100 * k) (persisted_count env shop mn mx k)
      (pages_world env shop mn mx k w)"
    by simp
  also have "\<dots> = processPage env shop mn mx (100 * Suc k)
      (persisted_count env shop mn mx k +
         length (filter has_entry_id (page_entries env shop mn mx k)))
      (page_world env shop mn mx k (pages_world env shop mn mx k w))"
    using Suc.prems by (intro processPage_full_page) simp_all
  finally show ?case
    by (simp add: persisted_count_def pages_world_def)
qed

lemma pages_world_Suc:
  "pages_world env shop mn mx (Suc k) w =
     page_world env shop mn mx k (pages_world env shop mn mx k w)"
  by (simp add: pages_world_def)

lemma trace_pages_world:
  "trace (pages_world env shop mn mx k w) =
     trace w @ concat (map (page_effects env shop mn mx) [0..<k])"
  by (induction k) (simp_all add: pages_world_Suc page_world_def, simp add: pages_world_def)

lemma store_pages_world:
  "store (pages_world env shop mn mx k w) =
     fold (\<lambda>i. apply_writes (ledger_writes (page_entries env shop mn mx i))) [0..<k] (store w)"
  by (induction k) (simp_all add: pages_world_Suc page_world_def, simp add: pages_world_def)

lemma api_calls_page_effects:
  "api_calls (page_effects env shop mn mx i) =
     [ApiCall (page_request shop mn mx (100 * i)) (Some 0)]"
  by (simp add: api_calls_def page_effects_def dropped_warnings_def persisted_effects_def
        filter_empty_conv)

lemma external_calls_page_effects:
  "external_calls (page_effects env shop mn mx i) = page_calls env shop mn mx i"
  by (simp add: external_calls_def page_effects_def page_calls_def dropped_warnings_def
        persisted_effects_def filter_empty_conv)

lemma api_calls_pages:
  "api_calls (concat (map (page_effects env shop mn mx) is)) =
     map (\<lambda>i. ApiCall (page_request shop mn mx (100 * i)) (Some 0)) is"
  by (induction "is") (simp_all add: api_calls_page_effects [unfolded api_calls_def] api_calls_def)

lemma external_calls_pages:
  "external_calls (concat (map (page_effects env shop mn mx) is)) =
     concat (map (page_calls env shop mn mx) is)"
  by (induction "is")
     (simp_all add: external_calls_page_effects [unfolded external_calls_def] external_calls_def)

lemma processPage_diverges:
  assumes "\<forall>i. full_page env shop mn mx i \<and> persist_ok env (page_entries env shop mn mx i)"
  shows "processPage env shop mn mx (100 * j) tot w = None"
proof (rule ccontr)
  assume "processPage env shop mn mx (100 * j) tot w \<noteq> None"
  then obtain y where y: "processPage env shop mn mx (100 * j) tot w = Some y"
    by auto
  have "env = env \<and> shop = shop \<and> mn = mn \<and> mx = mx \<and> (\<exists>i. 100 * j = 100 * i) \<longrightarrow> False"
    apply (rule processPage.raw_induct
      [where P = "\<lambda>env' shop' mn' mx' ofs tot w y.
         env' = env \<and> shop' = shop \<and> mn' = mn \<and> mx' = mx \<and> (\<exists>i. ofs = 100 * i) \<longrightarrow> False",
       OF _ y])
    subgoal premises prems for f env' shop' mn' mx' ofs tot w y
    proof
      assume a: "env' = env \<and> shop' = shop \<and> mn' = mn \<and> mx' = mx \<and> (\<exists>i. ofs = 100 * i)"
      then obtain i where i: "ofs = 100 * i" by blast
      from assms have fp: "full_page env shop mn mx i"
        and ok: "persist_ok env (page_entries env shop mn mx i)"
        by blast+
      from fp obtain r where r: "api env (page_request shop mn mx (100 * i)) (Some 0) = Inr r"
        by (auto simp: full_page_def page_fetched_def split: sum.splits)
      then have es: "page_entries env shop mn mx i = results_or_empty r"
        by (simp add: page_entries_def)
      from fp es have len: "\<not> length (results_or_empty r) < 100"
        by (simp add: full_page_def)
      from ok es have ok': "persist_ok env (results_or_empty r)"
        by simp
      from len have ne: "results_or_empty r \<noteq> []"
        by auto
      have "\<exists>tot' w'. f env shop mn mx (100 * i + 100) tot' w' = Some y"
        using prems(2) a i r len ne
        by (auto simp add: page_request_def results_or_empty_def Let_def
              persistBatch_ok' [OF ok', unfolded results_or_empty_def]
              split: option.splits)
      then obtain tot' w' where "f env shop mn mx (100 * i + 100) tot' w' = Some y"
        by blast
      from prems(1) [OF this] have "\<not> (\<exists>i'. 100 * i + 100 = 100 * i')"
        by blast
      moreover have "100 * i + 100 = 100 * Suc i"
        by simp
      ultimately show False
        by blast
    qed
    done
  then show False by blast
qed

lemma fetch_short_run:
  assumes "\<forall>i<k. full_page env shop mn mx i \<and> persist_ok env (page_entries env shop mn mx i)"
    and "short_page env shop mn mx k" and "persist_ok env (page_entries env shop mn mx k)"
  shows "fetchAndPersistLedgerEntries env shop mn mx w =
    Some (Inr (persisted_count env shop mn mx (Suc k)),
          logger Info ''Total entries persisted: ${totalPersisted}''
            [JNum (int (persisted_count env shop mn mx (Suc k)))]
            (pages_world env shop mn mx (Suc k) w))"
proof -
  have "processPage env shop mn mx 0 0 w =
    Some (Inr (persisted_count env shop mn mx (Suc k)), pages_world env shop mn mx (Suc k) w)"
    by (simp add: processPage_prefix [OF assms(1)] processPage_short_page [OF assms(2,3)]
          persisted_count_def pages_world_Suc del: mult_Suc_right)
  then show ?thesis
    by (simp add: fetchAndPersistLedgerEntries_def)
qed

lemma fetch_error_run:
  assumes "\<forall>i<k. full_page env shop mn mx i \<and> persist_ok env (page_entries env shop mn mx i)"
    and "api env (page_request shop mn mx (100 * k)) (Some 0) = Inl e"
  shows "fetchAndPersistLedgerEntries env shop mn mx w =
    Some (Inl e,
          logger Error ''Error fetching and persisting ledger entries:'' [err_val e]
            ((pages_world env shop mn mx k w)
               \<lparr>trace := trace (pages_world env shop mn mx k w) @
                  [Log Info ''Fetching ledger entries: offset=${offset}, limit=${limit}''
                     [JNum (int (100 * k)), JNum 100],
                   ApiCall (page_request shop mn mx (100 * k)) (Some 0)]\<rparr>))"
proof -
  have "processPage env shop mn mx 0 0 w =
    Some (Inl e,
          (pages_world env shop mn mx k w)
             \<lparr>trace := trace (pages_world env shop mn mx k w) @
                [Log Info ''Fetching ledger entries: offset=${offset}, limit=${limit}''
                   [JNum (int (100 * k)), JNum 100],
                 ApiCall (page_request shop mn mx (100 * k)) (Some 0)]\<rparr>)"
    by (simp only: processPage_prefix [OF assms(1)] processPage_fetch_error [OF assms(2)])
  then show ?thesis
    by (simp add: fetchAndPersistLedgerEntries_def)
qed

lemma fetch_endless_run:
  assumes "\<forall>i. full_page env shop mn mx i \<and> persist_ok env (page_entries env shop mn mx i)"
  shows "fetchAndPersistLedgerEntries env shop mn mx w = None"
  using processPage_diverges [OF assms, of 0 0 w]
  by (simp add: fetchAndPersistLedgerEntries_def)

lemma keys_set_merge: "fst ` set (set_merge pd s) = insert (fst pd) (fst ` set s)"
  by (simp add: set_merge_def dom_update)

lemma keys_apply_writes: "fst ` set (apply_writes ws s) = fst ` set s \<union> fst ` set ws"
  unfolding apply_writes_def
  by (induction ws arbitrary: s) (auto simp: keys_set_merge)

lemma keys_fold_pages:
  "fst ` set (fold (\<lambda>i. apply_writes (W i)) js s) = fst ` set s \<union> (\<Union>i \<in> set js. fst ` set (W i))"
  by (induction js arbitrary: s) (auto simp: keys_apply_writes)

lemma entry_path_written:
  "en \<in> set es \<Longrightarrow> has_entry_id en \<Longrightarrow> entry_path en \<in> fst ` set (ledger_writes es)"
  by (force simp: ledger_writes_def)

text \<open>
  C1. Every request has page size 100, and the request for page \<open>i\<close> has offset
  \<open>100 * i\<close>. When the pages before page \<open>k\<close> are full and page \<open>k\<close> is
  short (empty included), and no commit fails, \<open>fetchAndPersistLedgerEntries\<close> returns
  after exactly \<open>k + 1\<close> requests, with the number of records that passed the filter on
  these pages. When every page is full, it never returns.
\<close>

theorem pagination_stops_at_first_short_page:
  "((\<forall>i<k. full_page env shop mn mx i) \<and> short_page env shop mn mx k \<and>
    (\<forall>i\<le>k. persist_ok env (page_entries env shop mn mx i)) \<longrightarrow>
      (\<exists>w'. fetchAndPersistLedgerEntries env shop mn mx w =
               Some (Inr (persisted_count env shop mn mx (Suc k)), w') \<and>
            api_calls (trace w') =
              api_calls (trace w) @
              map (\<lambda>i. ApiCall (page_request shop mn mx (100 * i)) (Some 0)) [0..<Suc k])) \<and>
   ((\<forall>i. full_page env shop mn mx i \<and> persist_ok env (page_entries env shop mn mx i)) \<longrightarrow>
      fetchAndPersistLedgerEntries env shop mn mx w = None)"
proof (intro conjI impI)
  assume a: "(\<forall>i<k. full_page env shop mn mx i) \<and> short_page env shop mn mx k \<and>
    (\<forall>i\<le>k. persist_ok env (page_entries env shop mn mx i))"
  then have 1: "\<forall>i<k. full_page env shop mn mx i \<and> persist_ok env (page_entries env shop mn mx i)"
    and 2: "short_page env shop mn mx k" and 3: "persist_ok env (page_entries env shop mn mx k)"
    by auto
  show "\<exists>w'. fetchAndPersistLedgerEntries env shop mn mx w =
               Some (Inr (persisted_count env shop mn mx (Suc k)), w') \<and>
            api_calls (trace w') =
              api_calls (trace w) @
              map (\<lambda>i. ApiCall (page_request shop mn mx (100 * i)) (Some 0)) [0..<Suc k]"
    using api_calls_pages [of env shop mn mx "[0..<Suc k]"]
    by (simp add: fetch_short_run [OF 1 2 3] logger_def emit_def trace_pages_world api_calls_def)
next
  assume "\<forall>i. full_page env shop mn mx i \<and> persist_ok env (page_entries env shop mn mx i)"
  then show "fetchAndPersistLedgerEntries env shop mn mx w = None"
    by (rule fetch_endless_run)
qed

text \<open>
  C5. When the pages before page \<open>k\<close> are full and persisted and the request for page
  \<open>k\<close> fails, \<open>fetchAndPersistLedgerEntries\<close> ends with that error; the calls it
  made are, page by page, the request and then the commit of the page, followed by the one
  failing request (no retry); and the store holds the writes of the pages before \<open>k\<close>:
  every record of these pages that passed the filter has a document. In a run that ends
  on a short page the calls are interleaved in the same way.
\<close>

theorem fetch_error_aborts_sync:
  "((\<forall>i<k. full_page env shop mn mx i \<and> persist_ok env (page_entries env shop mn mx i)) \<and>
    api env (page_request shop mn mx (100 * k)) (Some 0) = Inl e \<longrightarrow>
      (\<exists>w'. fetchAndPersistLedgerEntries env shop mn mx w = Some (Inl e, w') \<and>
            external_calls (trace w') =
              external_calls (trace w) @ concat (map (page_calls env shop mn mx) [0..<k]) @
              [ApiCall (page_request shop mn mx (100 * k)) (Some 0)] \<and>
            store w' =
              fold (\<lambda>i. apply_writes (ledger_writes (page_entries env shop mn mx i))) [0..<k]
                (store w) \<and>
            (\<forall>i<k. \<forall>en \<in> set (page_entries env shop mn mx i).
               has_entry_id en \<longrightarrow> entry_path en \<in> fst ` set (store w')))) \<and>
   ((\<forall>i<k. full_page env shop mn mx i \<and> persist_ok env (page_entries env shop mn mx i)) \<and>
    short_page env shop mn mx k \<and> persist_ok env (page_entries env shop mn mx k) \<longrightarrow>
      (\<exists>w'. fetchAndPersistLedgerEntries env shop mn mx w =
               Some (Inr (persisted_count env shop mn mx (Suc k)), w') \<and>
            external_calls (trace w') =
              external_calls (trace w) @ concat (map (page_calls env shop mn mx) [0..<Suc k])))"
proof (intro conjI impI)
  assume a: "(\<forall>i<k. full_page env shop mn mx i \<and> persist_ok env (page_entries env shop mn mx i)) \<and>
    api env (page_request shop mn mx (100 * k)) (Some 0) = Inl e"
  then have 1: "\<forall>i<k. full_page env shop mn mx i \<and> persist_ok env (page_entries env shop mn mx i)"
    and 2: "api env (page_request shop mn mx (100 * k)) (Some 0) = Inl e"
    by auto
  let ?w' = "logger Error ''Error fetching and persisting ledger entries:'' [err_val e]
            ((pages_world env shop mn mx k w)
               \<lparr>trace := trace (pages_world env shop mn mx k w) @
                  [Log Info ''Fetching ledger entries: offset=${offset}, limit=${limit}''
                     [JNum (int (100 * k)), JNum 100],
                   ApiCall (page_request shop mn mx (100 * k)) (Some 0)]\<rparr>)"
  have r: "fetchAndPersistLedgerEntries env shop mn mx w = Some (Inl e, ?w')"
    by (rule fetch_error_run [OF 1 2])
  have t: "external_calls (trace ?w') =
      external_calls (trace w) @ concat (map (page_calls env shop mn mx) [0..<k]) @
      [ApiCall (page_request shop mn mx (100 * k)) (Some 0)]"
    using external_calls_pages [of env shop mn mx "[0..<k]"]
    by (simp add: logger_def emit_def trace_pages_world external_calls_def)
  have s: "store ?w' =
      fold (\<lambda>i. apply_writes (ledger_writes (page_entries env shop mn mx i))) [0..<k] (store w)"
    by (simp add: logger_def emit_def store_pages_world)
  have m: "\<forall>i<k. \<forall>en \<in> set (page_entries env shop mn mx i).
      has_entry_id en \<longrightarrow> entry_path en \<in> fst ` set (store ?w')"
    unfolding s keys_fold_pages using entry_path_written by fastforce
  show "\<exists>w'. fetchAndPersistLedgerEntries env shop mn mx w = Some (Inl e, w') \<and>
            external_calls (trace w') =
              external_calls (trace w) @ concat (map (page_calls env shop mn mx) [0..<k]) @
              [ApiCall (page_request shop mn mx (100 * k)) (Some 0)] \<and>
            store w' =
              fold (\<lambda>i. apply_writes (ledger_writes (page_entries env shop mn mx i))) [0..<k]
                (store w) \<and>
            (\<forall>i<k. \<forall>en \<in> set (page_entries env shop mn mx i).
               has_entry_id en \<longrightarrow> entry_path en \<in> fst ` set (store w'))"
    using r t s m by blast
next
  assume a: "(\<forall>i<k. full_page env shop mn mx i \<and> persist_ok env (page_entries env shop mn mx i)) \<and>
    short_page env shop mn mx k \<and> persist_ok env (page_entries env shop mn mx k)"
  then have 1: "\<forall>i<k. full_page env shop mn mx i \<and> persist_ok env (page_entries env shop mn mx i)"
    and 2: "short_page env shop mn mx k" and 3: "persist_ok env (page_entries env shop mn mx k)"
    by auto
  show "\<exists>w'. fetchAndPersistLedgerEntries env shop mn mx w =
               Some (Inr (persisted_count env shop mn mx (Suc k)), w') \<and>
            external_calls (trace w') =
              external_calls (trace w) @ concat (map (page_calls env shop mn mx) [0..<Suc k])"
    using external_calls_pages [of env shop mn mx "[0..<Suc k]"]
    by (simp add: fetch_short_run [OF 1 2 3] logger_def emit_def trace_pages_world
          external_calls_def)
qed

subsection \<open>Runs of the loop against mock remote APIs\<close>

lemma has_entry_id_numbered: "0 < a \<Longrightarrow> filter has_entry_id (numbered_entries a n) = numbered_entries a n"
  by (simp add: numbered_entries_def has_entry_id_def ledger_entry_def filter_map o_def)

lemma length_numbered [simp]: "length (numbered_entries a n) = n"
  by (simp add: numbered_entries_def)

lemma persist_ok_mock:
  "commit_failure env = (\<lambda>ws. None) \<Longrightarrow> persist_ok env es"
  by (simp add: persist_ok_def)

lemma paged_env_pages:
  "page_fetched paged_env shop mn mx i"
  "page_entries paged_env shop mn mx 0 = numbered_entries 1 100"
  "page_entries paged_env shop mn mx (Suc 0) = numbered_entries 101 100"
  "page_entries paged_env shop mn mx 2 = numbered_entries 201 37"
  "persist_ok paged_env es"
  by (simp_all add: paged_env_def mock_env_def page_fetched_def page_entries_def
        page_request_def results_or_empty_def persist_ok_def)

lemma endless_env_pages:
  "page_fetched endless_env shop mn mx i"
  "page_entries endless_env shop mn mx i = numbered_entries 1 100"
  "persist_ok endless_env es"
  by (simp_all add: endless_env_def mock_env_def page_fetched_def page_entries_def
        page_request_def results_or_empty_def persist_ok_def)

lemma failing_env_pages:
  "page_fetched failing_env shop mn mx 0"
  "page_entries failing_env shop mn mx 0 = numbered_entries 1 100"
  "persist_ok failing_env es"
  "api failing_env (page_request shop mn mx (100 * 1)) (Some 0) = Inl (Err ''ETIMEDOUT'')"
  by (simp_all add: failing_env_def mock_env_def page_fetched_def page_entries_def
        page_request_def results_or_empty_def persist_ok_def)

theorem pagination_stops_at_first_short_page_witness:
  "full_page paged_env 7 (JNum 0) (JNum 9) 0 \<and>
   full_page paged_env 7 (JNum 0) (JNum 9) 1 \<and>
   short_page paged_env 7 (JNum 0) (JNum 9) 2 \<and>
   length (page_entries paged_env 7 (JNum 0) (JNum 9) 0) = 100 \<and>
   length (page_entries paged_env 7 (JNum 0) (JNum 9) 1) = 100 \<and>
   length (page_entries paged_env 7 (JNum 0) (JNum 9) 2) = 37 \<and>
   map_option fst (fetchAndPersistLedgerEntries paged_env 7 (JNum 0) (JNum 9) empty_world) =
     Some (Inr 237) \<and>
   map_option (api_calls \<circ> trace \<circ> snd)
     (fetchAndPersistLedgerEntries paged_env 7 (JNum 0) (JNum 9) empty_world) =
     Some [ApiCall (page_request 7 (JNum 0) (JNum 9) 0) (Some 0),
           ApiCall (page_request 7 (JNum 0) (JNum 9) 100) (Some 0),
           ApiCall (page_request 7 (JNum 0) (JNum 9) 200) (Some 0)] \<and>
   full_page endless_env 7 (JNum 0) (JNum 9) 5 \<and>
   fetchAndPersistLedgerEntries endless_env 7 (JNum 0) (JNum 9) empty_world = None"
proof -
  have f: "\<forall>i<2. full_page paged_env 7 (JNum 0) (JNum 9) i"
    by (simp add: less_2_cases_iff full_page_def paged_env_pages)
  have s: "short_page paged_env 7 (JNum 0) (JNum 9) 2"
    by (simp add: short_page_def paged_env_pages)
  have u: "[0..<Suc 2] = [0, Suc 0, 2]"
    by (simp add: upt_rec)
  have c: "persisted_count paged_env 7 (JNum 0) (JNum 9) (Suc 2) = 237"
    unfolding persisted_count_def u
    by (simp add: paged_env_pages has_entry_id_numbered)
  have e: "\<forall>i. full_page endless_env 7 (JNum 0) (JNum 9) i \<and>
      persist_ok endless_env (page_entries endless_env 7 (JNum 0) (JNum 9) i)"
    by (simp add: full_page_def endless_env_pages)
  show ?thesis
    using pagination_stops_at_first_short_page
      [of 2 paged_env 7 "JNum 0" "JNum 9" empty_world] f s c
      pagination_stops_at_first_short_page
      [of 0 endless_env 7 "JNum 0" "JNum 9" empty_world] e
    unfolding u
    by (auto simp add: paged_env_pages endless_env_pages empty_world_def api_calls_def
          full_page_def short_page_def)
qed

lemma first_numbered_entry: "ledger_entry 1 1700000000 \<in> set (numbered_entries 1 100)"
proof -
  have "(1::nat) \<in> set [1..<1 + 100]"
    by simp
  then have "ledger_entry (int 1) 1700000000 \<in> set (numbered_entries 1 100)"
    unfolding numbered_entries_def by (intro imageI [where f = "\<lambda>i. ledger_entry (int i) 1700000000", of _ "set [1..<1 + 100]", unfolded set_map [symmetric]])
  then show ?thesis by simp
qed

theorem fetch_error_aborts_sync_witness:
  "full_page failing_env 7 (JNum 0) (JNum 9) 0 \<and>
   api failing_env (page_request 7 (JNum 0) (JNum 9) 100) (Some 0) = Inl (Err ''ETIMEDOUT'') \<and>
   map_option fst (fetchAndPersistLedgerEntries failing_env 7 (JNum 0) (JNum 9) empty_world) =
     Some (Inl (Err ''ETIMEDOUT'')) \<and>
   map_option (external_calls \<circ> trace \<circ> snd)
     (fetchAndPersistLedgerEntries failing_env 7 (JNum 0) (JNum 9) empty_world) =
     Some [ApiCall (page_request 7 (JNum 0) (JNum 9) 0) (Some 0),
           BatchCommit (ledger_writes (numbered_entries 1 100)),
           ApiCall (page_request 7 (JNum 0) (JNum 9) 100) (Some 0)] \<and>
   map_option (\<lambda>p. ''events/etsy/ledgerentry/1'' \<in> fst ` set (store (snd p)))
     (fetchAndPersistLedgerEntries failing_env 7 (JNum 0) (JNum 9) empty_world) = Some True \<and>
   short_page paged_env 7 (JNum 0) (JNum 9) 2 \<and>
   map_option (external_calls \<circ> trace \<circ> snd)
     (fetchAndPersistLedgerEntries paged_env 7 (JNum 0) (JNum 9) empty_world) =
     Some [ApiCall (page_request 7 (JNum 0) (JNum 9) 0) (Some 0),
           BatchCommit (ledger_writes (numbered_entries 1 100)),
           ApiCall (page_request 7 (JNum 0) (JNum 9) 100) (Some 0),
           BatchCommit (ledger_writes (numbered_entries 101 100)),
           ApiCall (page_request 7 (JNum 0) (JNum 9) 200) (Some 0),
           BatchCommit (ledger_writes (numbered_entries 201 37))]"
proof -
  have f1: "\<forall>i<1. full_page failing_env 7 (JNum 0) (JNum 9) i \<and>
      persist_ok failing_env (page_entries failing_env 7 (JNum 0) (JNum 9) i)"
    by (simp add: full_page_def failing_env_pages)
  have e1: "api failing_env (page_request 7 (JNum 0) (JNum 9) (100 * 1)) (Some 0) =
      Inl (Err ''ETIMEDOUT'')"
    by (rule failing_env_pages)
  have f2: "\<forall>i<2. full_page paged_env 7 (JNum 0) (JNum 9) i \<and>
      persist_ok paged_env (page_entries paged_env 7 (JNum 0) (JNum 9) i)"
    by (simp add: less_2_cases_iff full_page_def paged_env_pages)
  have s2: "short_page paged_env 7 (JNum 0) (JNum 9) 2 \<and>
      persist_ok paged_env (page_entries paged_env 7 (JNum 0) (JNum 9) 2)"
    by (simp add: short_page_def paged_env_pages)
  have u: "[0..<Suc 2] = [0, Suc 0, 2]"
    by (simp add: upt_rec)
  have p: "entry_path (ledger_entry 1 1700000000) = ''events/etsy/ledgerentry/1''"
    "has_entry_id (ledger_entry 1 1700000000)"
    by (simp_all add: entry_path_def ledger_entry_def show_int_def has_entry_id_def)
  have n: "numbered_entries 1 100 \<noteq> []" "numbered_entries 101 100 \<noteq> []"
    "numbered_entries 201 37 \<noteq> []"
    by (simp_all add: numbered_entries_def)
  from fetch_error_aborts_sync
      [of 1 failing_env 7 "JNum 0" "JNum 9" "Err ''ETIMEDOUT''" empty_world] f1 e1
  obtain w1 where r1: "fetchAndPersistLedgerEntries failing_env 7 (JNum 0) (JNum 9) empty_world =
      Some (Inl (Err ''ETIMEDOUT''), w1)"
    and c1: "external_calls (trace w1) =
      external_calls (trace empty_world) @
      concat (map (page_calls failing_env 7 (JNum 0) (JNum 9)) [0..<1]) @
      [ApiCall (page_request 7 (JNum 0) (JNum 9) (100 * 1)) (Some 0)]"
    and m1: "\<forall>i<1. \<forall>en \<in> set (page_entries failing_env 7 (JNum 0) (JNum 9) i).
      has_entry_id en \<longrightarrow> entry_path en \<in> fst ` set (store w1)"
    by blast
  from m1 have "\<forall>en \<in> set (numbered_entries 1 100).
      has_entry_id en \<longrightarrow> entry_path en \<in> fst ` set (store w1)"
    by (simp add: failing_env_pages)
  with first_numbered_entry p have k1: "''events/etsy/ledgerentry/1'' \<in> fst ` set (store w1)"
    by (metis (no_types, lifting))
  from fetch_error_aborts_sync
      [of 2 paged_env 7 "JNum 0" "JNum 9" "Err ''ETIMEDOUT''" empty_world] f2 s2
  obtain w2 where r2: "fetchAndPersistLedgerEntries paged_env 7 (JNum 0) (JNum 9) empty_world =
      Some (Inr (persisted_count paged_env 7 (JNum 0) (JNum 9) (Suc 2)), w2)"
    and c2: "external_calls (trace w2) =
      external_calls (trace empty_world) @
      concat (map (page_calls paged_env 7 (JNum 0) (JNum 9)) [0..<Suc 2])"
    by blast
  show ?thesis
    using r1 c1 k1 r2 c2 n e1 unfolding u
    by (simp add: paged_env_pages failing_env_pages empty_world_def external_calls_def
          full_page_def short_page_def page_calls_def has_entry_id_numbered)
qed

section \<open>The two variants of the sync\<close>

lemma filter_valid_p1_eq: "filter_valid_p1 es w = filter_valid es w"
  by (induction es arbitrary: w) simp_all

lemma persistBatch_p1_eq: "persistBatch_p1 env es w = persistBatch env es w"
  by (simp add: persistBatch_p1_def persistBatch_def filter_valid_p1_eq)

lemma processPage_iteration:
  "processPage env shop mn mx ofs tot w =
     page_iteration (Some 0) (processPage env shop mn mx) env shop mn mx ofs tot w"
  by (subst processPage.simps) (simp add: page_iteration_def)

lemma processPage_p1_iteration:
  "processPage_p1 env shop mn mx ofs tot w =
     page_iteration None (processPage_p1 env shop mn mx) env shop mn mx ofs tot w"
  by (subst processPage_p1.simps) (unfold page_iteration_def persistBatch_p1_eq, rule refl)

lemma same_storage_logger:
  "same_storage (logger l m a w1) (logger l' m' a' w2) = same_storage w1 w2"
  by (simp add: same_storage_def logger_def emit_def writes_of_def)

lemma same_storage_api:
  "same_storage (emit (ApiCall r f) w1) (emit (ApiCall r' f') w2) = same_storage w1 w2"
  by (simp add: same_storage_def emit_def writes_of_def)

lemma persistBatch_same_storage:
  assumes "same_storage w1 w2"
  shows "fst (persistBatch env es w1) = fst (persistBatch env es w2) \<and>
    same_storage (snd (persistBatch env es w1)) (snd (persistBatch env es w2))"
  using assms
  by (auto simp add: persistBatch_def filter_valid_eq batch_commit_def same_storage_def
        logger_def emit_def writes_of_def split: option.splits)

lemma page_iteration_sim:
  assumes api: "\<forall>r. api env r s1 = api env r s2"
    and rel: "same_storage w1 w2"
    and run: "page_iteration s1 k1 env shop mn mx ofs tot w1 = Some y1"
    and IH: "\<And>ofs' tot' v1 v2 y. k1 ofs' tot' v1 = Some y \<Longrightarrow> same_storage v1 v2 \<Longrightarrow>
      \<exists>y2. k2 ofs' tot' v2 = Some y2 \<and> fst y2 = fst y \<and> same_storage (snd y) (snd y2)"
  shows "\<exists>y2. page_iteration s2 k2 env shop mn mx ofs tot w2 = Some y2 \<and> fst y2 = fst y1 \<and>
    same_storage (snd y1) (snd y2)"
proof -
  let ?req = "\<lparr>shopId = shop, min_created = mn, max_created = mx, limit = 100, offset = ofs\<rparr>"
  let ?f = "\<lambda>s w. emit (ApiCall ?req s)
    (logger Info ''Fetching ledger entries: offset=${offset}, limit=${limit}''
       [JNum (int ofs), JNum 100] w)"
  have a: "api env ?req s2 = api env ?req s1"
    using api by simp
  have f: "same_storage (?f s1 w1) (?f s2 w2)"
    using rel by (simp add: same_storage_api same_storage_logger)
  show ?thesis
  proof (cases "api env ?req s1")
    case (Inl e)
    with run a f show ?thesis
      by (auto simp add: page_iteration_def Let_def)
  next
    case (Inr r)
    let ?es = "case r of Some es \<Rightarrow> es | None \<Rightarrow> []"
    let ?g = "\<lambda>s w. logger Info ''Received ${entries.length} entries''
      [JNum (int (length ?es))] (?f s w)"
    have g: "same_storage (?g s1 w1) (?g s2 w2)"
      using f by (simp add: same_storage_logger)
    obtain res v1 where p1: "persistBatch env ?es (?g s1 w1) = (res, v1)"
      by (cases "persistBatch env ?es (?g s1 w1)") auto
    from persistBatch_same_storage [OF g, of env ?es] p1
    obtain v2 where p2: "persistBatch env ?es (?g s2 w2) = (res, v2)"
      and v: "same_storage v1 v2"
      by (cases "persistBatch env ?es (?g s2 w2)") auto
    show ?thesis
    proof (cases res)
      case (Inl e)
      with run Inr a p1 p2 v show ?thesis
        by (auto simp add: page_iteration_def Let_def)
    next
      case c: (Inr c)
      show ?thesis
      proof (cases "length ?es = 0 \<or> length ?es < 100")
        case True
        with run Inr a p1 p2 v c show ?thesis
          by (auto simp add: page_iteration_def Let_def)
      next
        case False
        with run Inr p1 c have "k1 (ofs + 100) (tot + c) v1 = Some y1"
          by (auto simp add: page_iteration_def Let_def)
        from IH [OF this v] obtain y2 where "k2 (ofs + 100) (tot + c) v2 = Some y2"
          and "fst y2 = fst y1" and "same_storage (snd y1) (snd y2)"
          by blast
        with False Inr a p2 c show ?thesis
          by (auto simp add: page_iteration_def Let_def)
      qed
    qed
  qed
qed

lemma processPage_to_p1:
  assumes "\<forall>r. api env r None = api env r (Some 0)"
    and "processPage env shop mn mx ofs tot w1 = Some y1" and "same_storage w1 w2"
  shows "\<exists>y2. processPage_p1 env shop mn mx ofs tot w2 = Some y2 \<and> fst y2 = fst y1 \<and>
    same_storage (snd y1) (snd y2)"
proof -
  have "(\<forall>r. api env r None = api env r (Some 0)) \<longrightarrow>
    (\<forall>w2. same_storage w1 w2 \<longrightarrow>
      (\<exists>y2. processPage_p1 env shop mn mx ofs tot w2 = Some y2 \<and> fst y2 = fst y1 \<and>
        same_storage (snd y1) (snd y2)))"
    apply (rule processPage.raw_induct
      [where P = "\<lambda>env shop mn mx ofs tot w1 y1.
         (\<forall>r. api env r None = api env r (Some 0)) \<longrightarrow>
         (\<forall>w2. same_storage w1 w2 \<longrightarrow>
           (\<exists>y2. processPage_p1 env shop mn mx ofs tot w2 = Some y2 \<and> fst y2 = fst y1 \<and>
             same_storage (snd y1) (snd y2)))",
       OF _ assms(2)])
    subgoal premises prems for f env shop mn mx ofs tot w1 y1
    proof (intro impI allI)
      fix w2
      assume api: "\<forall>r. api env r None = api env r (Some 0)" and rel: "same_storage w1 w2"
      have run: "page_iteration (Some 0) (f env shop mn mx) env shop mn mx ofs tot w1 = Some y1"
        using prems(2) by (simp add: page_iteration_def)
      have api': "\<forall>r. api env r (Some 0) = api env r None"
        using api by simp
      have "\<exists>y2. page_iteration None (processPage_p1 env shop mn mx) env shop mn mx ofs tot w2 =
          Some y2 \<and> fst y2 = fst y1 \<and> same_storage (snd y1) (snd y2)"
      proof (rule page_iteration_sim [OF api' rel run])
        fix ofs' tot' v1 v2 y
        assume "f env shop mn mx ofs' tot' v1 = Some y" and "same_storage v1 v2"
        with prems(1) api
        show "\<exists>y2. processPage_p1 env shop mn mx ofs' tot' v2 = Some y2 \<and> fst y2 = fst y \<and>
          same_storage (snd y) (snd y2)"
          by blast
      qed
      then show "\<exists>y2. processPage_p1 env shop mn mx ofs tot w2 = Some y2 \<and> fst y2 = fst y1 \<and>
          same_storage (snd y1) (snd y2)"
        by (simp add: processPage_p1_iteration [symmetric])
    qed
    done
  with assms(1,3) show ?thesis by blast
qed

lemma processPage_from_p1:
  assumes "\<forall>r. api env r None = api env r (Some 0)"
    and "processPage_p1 env shop mn mx ofs tot w1 = Some y1" and "same_storage w1 w2"
  shows "\<exists>y2. processPage env shop mn mx ofs tot w2 = Some y2 \<and> fst y2 = fst y1 \<and>
    same_storage (snd y1) (snd y2)"
proof -
  have "(\<forall>r. api env r None = api env r (Some 0)) \<longrightarrow>
    (\<forall>w2. same_storage w1 w2 \<longrightarrow>
      (\<exists>y2. processPage env shop mn mx ofs tot w2 = Some y2 \<and> fst y2 = fst y1 \<and>
        same_storage (snd y1) (snd y2)))"
    apply (rule processPage_p1.raw_induct
      [where P = "\<lambda>env shop mn mx ofs tot w1 y1.
         (\<forall>r. api env r None = api env r (Some 0)) \<longrightarrow>
         (\<forall>w2. same_storage w1 w2 \<longrightarrow>
           (\<exists>y2. processPage env shop mn mx ofs tot w2 = Some y2 \<and> fst y2 = fst y1 \<and>
             same_storage (snd y1) (snd y2)))",
       OF _ assms(2)])
    subgoal premises prems for f env shop mn mx ofs tot w1 y1
    proof (intro impI allI)
      fix w2
      assume api: "\<forall>r. api env r None = api env r (Some 0)" and rel: "same_storage w1 w2"
      have run: "page_iteration None (f env shop mn mx) env shop mn mx ofs tot w1 = Some y1"
        using prems(2) unfolding page_iteration_def persistBatch_p1_eq .
      have "\<exists>y2. page_iteration (Some 0) (processPage env shop mn mx) env shop mn mx ofs tot w2 =
          Some y2 \<and> fst y2 = fst y1 \<and> same_storage (snd y1) (snd y2)"
      proof (rule page_iteration_sim [OF api rel run])
        fix ofs' tot' v1 v2 y
        assume "f env shop mn mx ofs' tot' v1 = Some y" and "same_storage v1 v2"
        with prems(1) api
        show "\<exists>y2. processPage env shop mn mx ofs' tot' v2 = Some y2 \<and> fst y2 = fst y \<and>
          same_storage (snd y) (snd y2)"
          by blast
      qed
      then show "\<exists>y2. processPage env shop mn mx ofs tot w2 = Some y2 \<and> fst y2 = fst y1 \<and>
          same_storage (snd y1) (snd y2)"
        by (simp add: processPage_iteration [symmetric])
    qed
    done
  with assms(1,3) show ?thesis by blast
qed

lemma storage_outcome_fetch:
  "storage_outcome (fetchAndPersistLedgerEntries env shop mn mx w) =
     storage_outcome (processPage env shop mn mx 0 0 w)"
  by (auto simp add: storage_outcome_def fetchAndPersistLedgerEntries_def logger_def emit_def
        writes_of_def split: option.splits sum.splits)

lemma storage_outcome_fetch_p1:
  "storage_outcome (fetchAndPersistLedgerEntries_p1 env shop mn mx w) =
     storage_outcome (processPage_p1 env shop mn mx 0 0 w)"
  by (auto simp add: storage_outcome_def fetchAndPersistLedgerEntries_p1_def logger_def emit_def
        writes_of_def split: option.splits sum.splits)

lemma storage_outcome_pages:
  assumes "\<forall>r. api env r None = api env r (Some 0)"
  shows "storage_outcome (processPage_p1 env shop mn mx 0 0 w) =
    storage_outcome (processPage env shop mn mx 0 0 w)"
proof (cases "processPage env shop mn mx 0 0 w")
  case None
  have "processPage_p1 env shop mn mx 0 0 w = None"
  proof (rule ccontr)
    assume "processPage_p1 env shop mn mx 0 0 w \<noteq> None"
    then obtain y where "processPage_p1 env shop mn mx 0 0 w = Some y"
      by auto
    from processPage_from_p1 [OF assms this, of w] None show False
      by (simp add: same_storage_def)
  qed
  with None show ?thesis by simp
next
  case (Some y1)
  from processPage_to_p1 [OF assms Some, of w]
  obtain y2 where "processPage_p1 env shop mn mx 0 0 w = Some y2" and "fst y2 = fst y1"
    and "same_storage (snd y1) (snd y2)"
    by (auto simp: same_storage_def)
  with Some show ?thesis
    by (simp add: storage_outcome_def same_storage_def)
qed

text \<open>
  C10. \<open>persistBatch\<close> of the second variant is the same function as that of the first.
  When the remote API gives the same answers with and without the second argument of the
  call (the only difference between the two loops), the two variants of
  \<open>fetchAndPersistLedgerEntries\<close> return the same count or the same error, leave the
  same store, and perform the same writes in the same order; when one does not return,
  neither does the other.
\<close>

theorem sync_variants_equivalent:
  "persistBatch_p1 env entries w = persistBatch env entries w \<and>
   ((\<forall>r. api env r None = api env r (Some 0)) \<longrightarrow>
      storage_outcome (fetchAndPersistLedgerEntries_p1 env shop mn mx w) =
      storage_outcome (fetchAndPersistLedgerEntries env shop mn mx w))"
  using storage_outcome_pages [of env shop mn mx w]
  by (simp add: persistBatch_p1_eq storage_outcome_fetch storage_outcome_fetch_p1)

theorem sync_variants_equivalent_witness:
  "(\<forall>r. api paged_env r None = api paged_env r (Some 0)) \<and>
   persistBatch_p1 mock_env ten_entries empty_world = persistBatch mock_env ten_entries empty_world \<and>
   fst (persistBatch_p1 mock_env ten_entries empty_world) = Inr 8 \<and>
   storage_outcome (fetchAndPersistLedgerEntries_p1 paged_env 7 (JNum 0) (JNum 9) empty_world) =
   storage_outcome (fetchAndPersistLedgerEntries paged_env 7 (JNum 0) (JNum 9) empty_world) \<and>
   map_option fst
     (storage_outcome (fetchAndPersistLedgerEntries_p1 paged_env 7 (JNum 0) (JNum 9) empty_world)) =
     Some (Inr 237)"
proof -
  have a: "\<forall>r. api paged_env r None = api paged_env r (Some 0)"
    by (simp add: paged_env_def)
  have f: "\<forall>i<2. full_page paged_env 7 (JNum 0) (JNum 9) i \<and>
      persist_ok paged_env (page_entries paged_env 7 (JNum 0) (JNum 9) i)"
    by (simp add: less_2_cases_iff full_page_def paged_env_pages)
  have s: "short_page paged_env 7 (JNum 0) (JNum 9) 2"
    by (simp add: short_page_def paged_env_pages)
  have u: "[0..<Suc 2] = [0, Suc 0, 2]"
    by (simp add: upt_rec)
  have c: "persisted_count paged_env 7 (JNum 0) (JNum 9) (Suc 2) = 237"
    unfolding persisted_count_def u
    by (simp add: paged_env_pages has_entry_id_numbered)
  have r: "map_option fst
      (storage_outcome (fetchAndPersistLedgerEntries paged_env 7 (JNum 0) (JNum 9) empty_world)) =
      Some (Inr 237)"
    using c by (simp add: fetch_short_run [OF f s paged_env_pages(5)] storage_outcome_def)
  have p: "fst (persistBatch mock_env ten_entries empty_world) = Inr 8"
    by (simp add: persistBatch_ok mock_env_def ten_entries_def ledger_entry_def has_entry_id_def)
  show ?thesis
    using sync_variants_equivalent [of paged_env _ _ 7 "JNum 0" "JNum 9"]
      sync_variants_equivalent [of mock_env ten_entries empty_world] a r p
    by simp
qed

section \<open>Sync cursor and the scheduled job\<close>

lemma opt_chain_get_field: "opt_chain v k = get_field v k"
  by (cases v) simp_all

lemma field_path_timestamp: "field_path [''body'', ''created_timestamp''] d = entry_timestamp d"
  by (simp add: field_path_def entry_timestamp_def opt_chain_get_field)

lemma sorted_le_last: "sorted ys \<Longrightarrow> y \<in> set ys \<Longrightarrow> y \<le> last ys"
  by (induction ys) (auto)

lemma top_of_order:
  assumes "xs \<noteq> []"
  shows "\<exists>d. take 1 (rev (sort_key f xs)) = [d] \<and> d \<in> set xs \<and> (\<forall>x \<in> set xs. f x \<le> f d)"
proof -
  let ?ys = "sort_key f xs"
  have ne: "?ys \<noteq> []"
    using assms by (metis set_sort set_empty)
  have s: "sorted (map f ?ys)"
    by (rule sorted_sort_key)
  have top: "take 1 (rev ?ys) = [last ?ys]"
    using ne by (cases "rev ?ys") (auto simp: last_rev [symmetric] simp del: last_rev)
  have mem: "last ?ys \<in> set xs"
    using ne last_in_set [of ?ys] by simp
  have "\<forall>x \<in> set xs. f x \<le> f (last ?ys)"
  proof
    fix x assume "x \<in> set xs"
    then have "f x \<in> set (map f ?ys)" by simp
    from sorted_le_last [OF s this] show "f x \<le> f (last ?ys)"
      using ne by (simp add: last_map)
  qed
  with top mem show ?thesis by blast
qed

lemma query_result:
  "latest_entry_query env w =
     (case query_failure env of
        Some e \<Rightarrow> Inl e
      | None \<Rightarrow> Inr (take 1 (rev (sort_key (\<lambda>d. fs_key (entry_timestamp d)) (ranked_entries (store w))))),
      emit (Query ''events/etsy/ledgerentry'' ''body.created_timestamp'') w)"
  by (simp add: latest_entry_query_def orderBy_desc_limit1_def ranked_entries_def
        field_path_timestamp Let_def split: option.splits)

lemma cursor_v1:
  "fst (getLastSyncTimestamp env w) =
     (case fst (latest_entry_query env w) of
        Inl e \<Rightarrow> Inr (JNum (clock env (ticks w) div 1000 - 2592000))
      | Inr [] \<Rightarrow> Inr (JNum (clock env (ticks w) div 1000 - 2592000))
      | Inr (d # ds) \<Rightarrow>
          if truthy (entry_timestamp d) then Inr (entry_timestamp d)
          else Inr (JNum (clock env (ticks w) div 1000 - 2592000)))"
  by (simp add: getLastSyncTimestamp_def query_result Date_now_def thirty_days_before_def
        entry_timestamp_def logger_def emit_def Let_def split_beta
        split: option.splits list.splits)

lemma cursor_p1:
  "fst (getLastSyncTimestamp_p1 env w) =
     (case fst (latest_entry_query env w) of
        Inl e \<Rightarrow> Inr JNull
      | Inr [] \<Rightarrow> Inr JNull
      | Inr (d # ds) \<Rightarrow>
          if truthy (entry_timestamp d) then Inr (entry_timestamp d) else Inr JNull)"
  by (simp add: getLastSyncTimestamp_p1_def query_result entry_timestamp_def Let_def
        split: option.splits list.splits)

lemma cursor_total:
  "(\<exists>t. fst (getLastSyncTimestamp env w) = Inr t) \<and>
   (\<exists>t. fst (getLastSyncTimestamp_p1 env w) = Inr t)"
  by (simp add: cursor_v1 cursor_p1 split: sum.splits list.splits)

lemma cursor_maximum:
  assumes "query_failure env = None" and "ranked_entries (store w) \<noteq> []"
    and "\<forall>d \<in> set (ranked_entries (store w)). \<exists>n. entry_timestamp d = JNum n \<and> n \<noteq> 0"
  shows "\<exists>n. fst (getLastSyncTimestamp env w) = Inr (JNum n) \<and>
    fst (getLastSyncTimestamp_p1 env w) = Inr (JNum n) \<and>
    (\<exists>d \<in> set (ranked_entries (store w)). entry_timestamp d = JNum n) \<and>
    (\<forall>d \<in> set (ranked_entries (store w)). \<forall>m. entry_timestamp d = JNum m \<longrightarrow> m \<le> n)"
proof -
  from top_of_order [OF assms(2), of "\<lambda>d. fs_key (entry_timestamp d)"]
  obtain d where top: "take 1 (rev (sort_key (\<lambda>d. fs_key (entry_timestamp d))
        (ranked_entries (store w)))) = [d]"
    and mem: "d \<in> set (ranked_entries (store w))"
    and mx: "\<forall>x \<in> set (ranked_entries (store w)).
        fs_key (entry_timestamp x) \<le> fs_key (entry_timestamp d)"
    by blast
  from assms(3) mem obtain n where n: "entry_timestamp d = JNum n" "n \<noteq> 0"
    by blast
  have q: "fst (latest_entry_query env w) = Inr [d]"
    using top by (simp add: query_result assms(1))
  have le: "\<forall>x \<in> set (ranked_entries (store w)). \<forall>m. entry_timestamp x = JNum m \<longrightarrow> m \<le> n"
  proof (intro ballI allI impI)
    fix x m assume "x \<in> set (ranked_entries (store w))" and "entry_timestamp x = JNum m"
    with mx n show "m \<le> n" by fastforce
  qed
  show ?thesis
    using q n mem le by (auto simp add: cursor_v1 cursor_p1)
qed

text \<open>
  C3, as amended. Neither variant of \<open>getLastSyncTimestamp\<close> throws. When the query
  throws, returns no document, or returns a document whose \<open>body.created_timestamp\<close> is
  falsy (missing, null, 0), the first variant returns the seconds of the clock minus
  2,592,000 and the second returns null, which its caller replaces by 0. Otherwise both
  return the \<open>body.created_timestamp\<close> of the document the query returns; when the
  timestamps of the ranked documents are non-zero integers, that is their maximum.
\<close>

theorem getLastSyncTimestamp_fallback:
  "(\<exists>t. fst (getLastSyncTimestamp env w) = Inr t) \<and>
   (\<exists>t. fst (getLastSyncTimestamp_p1 env w) = Inr t) \<and>
   (((\<exists>e. fst (latest_entry_query env w) = Inl e) \<or> fst (latest_entry_query env w) = Inr [] \<or>
     (\<exists>d ds. fst (latest_entry_query env w) = Inr (d # ds) \<and> \<not> truthy (entry_timestamp d))) \<longrightarrow>
      fst (getLastSyncTimestamp env w) = Inr (JNum (clock env (ticks w) div 1000 - 2592000)) \<and>
      fst (getLastSyncTimestamp_p1 env w) = Inr JNull \<and>
      nullish_or JNull (JNum 0) = JNum 0) \<and>
   (\<forall>d ds. fst (latest_entry_query env w) = Inr (d # ds) \<and> truthy (entry_timestamp d) \<longrightarrow>
      fst (getLastSyncTimestamp env w) = Inr (entry_timestamp d) \<and>
      fst (getLastSyncTimestamp_p1 env w) = Inr (entry_timestamp d)) \<and>
   (query_failure env = None \<and> ranked_entries (store w) \<noteq> [] \<and>
    (\<forall>d \<in> set (ranked_entries (store w)). \<exists>n. entry_timestamp d = JNum n \<and> n \<noteq> 0) \<longrightarrow>
      (\<exists>n. fst (getLastSyncTimestamp env w) = Inr (JNum n) \<and>
           fst (getLastSyncTimestamp_p1 env w) = Inr (JNum n) \<and>
           (\<exists>d \<in> set (ranked_entries (store w)). entry_timestamp d = JNum n) \<and>
           (\<forall>d \<in> set (ranked_entries (store w)). \<forall>m. entry_timestamp d = JNum m \<longrightarrow> m \<le> n)))"
proof (intro conjI)
  show "\<exists>t. fst (getLastSyncTimestamp env w) = Inr t" "\<exists>t. fst (getLastSyncTimestamp_p1 env w) = Inr t"
    using cursor_total [of env w] by blast+
  show "((\<exists>e. fst (latest_entry_query env w) = Inl e) \<or> fst (latest_entry_query env w) = Inr [] \<or>
     (\<exists>d ds. fst (latest_entry_query env w) = Inr (d # ds) \<and> \<not> truthy (entry_timestamp d))) \<longrightarrow>
      fst (getLastSyncTimestamp env w) = Inr (JNum (clock env (ticks w) div 1000 - 2592000)) \<and>
      fst (getLastSyncTimestamp_p1 env w) = Inr JNull \<and>
      nullish_or JNull (JNum 0) = JNum 0"
    by (auto simp add: cursor_v1 cursor_p1)
  show "\<forall>d ds. fst (latest_entry_query env w) = Inr (d # ds) \<and> truthy (entry_timestamp d) \<longrightarrow>
      fst (getLastSyncTimestamp env w) = Inr (entry_timestamp d) \<and>
      fst (getLastSyncTimestamp_p1 env w) = Inr (entry_timestamp d)"
    by (simp add: cursor_v1 cursor_p1)
  show "query_failure env = None \<and> ranked_entries (store w) \<noteq> [] \<and>
    (\<forall>d \<in> set (ranked_entries (store w)). \<exists>n. entry_timestamp d = JNum n \<and> n \<noteq> 0) \<longrightarrow>
      (\<exists>n. fst (getLastSyncTimestamp env w) = Inr (JNum n) \<and>
           fst (getLastSyncTimestamp_p1 env w) = Inr (JNum n) \<and>
           (\<exists>d \<in> set (ranked_entries (store w)). entry_timestamp d = JNum n) \<and>
           (\<forall>d \<in> set (ranked_entries (store w)). \<forall>m. entry_timestamp d = JNum m \<longrightarrow> m \<le> n))"
    using cursor_maximum [of env w] by blast
qed

lemma ranked_synced:
  "ranked_entries (store synced_world) =
     [JObj [(''body'', JObj [(''entry_id'', JNum 7), (''created_timestamp'', JNum 1690000000)])],
      JObj [(''body'', JObj [(''entry_id'', JNum 9), (''created_timestamp'', JNum 1699999999)])],
      JObj [(''body'', JObj [(''entry_id'', JNum 8), (''created_timestamp'', JNum 1695000000)])]]"
  by (simp add: ranked_entries_def synced_world_def collection_docs_def in_collection_def
        field_path_def)

lemma query_synced:
  "fst (latest_entry_query mock_env synced_world) =
     Inr [JObj [(''body'', JObj [(''entry_id'', JNum 9), (''created_timestamp'', JNum 1699999999)])]]"
  by (simp add: query_result ranked_synced mock_env_def entry_timestamp_def)

theorem getLastSyncTimestamp_fallback_witness:
  "fst (latest_entry_query mock_env empty_world) = Inr [] \<and>
   fst (getLastSyncTimestamp mock_env empty_world) = Inr (JNum 1697408000) \<and>
   fst (getLastSyncTimestamp_p1 mock_env empty_world) = Inr JNull \<and>
   fst (latest_entry_query query_down_env synced_world) = Inl (Err ''UNAVAILABLE'') \<and>
   fst (getLastSyncTimestamp query_down_env synced_world) = Inr (JNum 1697408000) \<and>
   fst (getLastSyncTimestamp_p1 query_down_env synced_world) = Inr JNull \<and>
   query_failure mock_env = None \<and>
   ranked_entries (store synced_world) \<noteq> [] \<and>
   fst (latest_entry_query mock_env synced_world) =
     Inr [JObj [(''body'', JObj [(''entry_id'', JNum 9), (''created_timestamp'', JNum 1699999999)])]] \<and>
   fst (getLastSyncTimestamp mock_env synced_world) = Inr (JNum 1699999999) \<and>
   fst (getLastSyncTimestamp_p1 mock_env synced_world) = Inr (JNum 1699999999)"
proof -
  have q0: "fst (latest_entry_query mock_env empty_world) = Inr []"
    by (simp add: query_result mock_env_def empty_world_def ranked_entries_def
          collection_docs_def)
  have q1: "fst (latest_entry_query query_down_env synced_world) = Inl (Err ''UNAVAILABLE'')"
    by (simp add: query_result query_down_env_def mock_env_def)
  have t: "truthy (entry_timestamp
      (JObj [(''body'', JObj [(''entry_id'', JNum 9), (''created_timestamp'', JNum 1699999999)])]))"
    "entry_timestamp
      (JObj [(''body'', JObj [(''entry_id'', JNum 9), (''created_timestamp'', JNum 1699999999)])]) =
     JNum 1699999999"
    by (simp_all add: entry_timestamp_def)
  have c: "clock mock_env (ticks empty_world) div 1000 - 2592000 = 1697408000"
    "clock query_down_env (ticks synced_world) div 1000 - 2592000 = 1697408000"
    "query_failure mock_env = None"
    by (simp_all add: mock_env_def query_down_env_def empty_world_def synced_world_def)
  have n: "\<forall>d \<in> set (ranked_entries (store synced_world)). \<exists>n. entry_timestamp d = JNum n \<and> n \<noteq> 0"
    by (simp add: ranked_synced entry_timestamp_def)
  show ?thesis
    using getLastSyncTimestamp_fallback [of mock_env empty_world]
      getLastSyncTimestamp_fallback [of query_down_env synced_world]
      getLastSyncTimestamp_fallback [of mock_env synced_world]
      q0 q1 query_synced t c n
    by (simp add: ranked_synced)
qed

text \<open>
  C3, as stated, fails: on the empty store the second variant returns null, which is
  neither 0 nor the clock minus 2,592,000; and on a store whose only entry has the timestamp
  0 the first variant returns the fallback, not the maximum.
\<close>

theorem getLastSyncTimestamp_counterexample:
  "store empty_world = [] \<and>
   fst (getLastSyncTimestamp_p1 mock_env empty_world) = Inr JNull \<and>
   JNull \<noteq> JNum 0 \<and>
   JNull \<noteq> JNum (clock mock_env (ticks empty_world) div 1000 - 2592000) \<and>
   ranked_entries (store epoch_world) =
     [JObj [(''body'', JObj [(''entry_id'', JNum 7), (''created_timestamp'', JNum 0)])]] \<and>
   entry_timestamp (JObj [(''body'', JObj [(''entry_id'', JNum 7), (''created_timestamp'', JNum 0)])]) =
     JNum 0 \<and>
   fst (getLastSyncTimestamp mock_env epoch_world) = Inr (JNum 1697408000)"
  by (simp add: cursor_v1 cursor_p1 query_result mock_env_def empty_world_def epoch_world_def
        ranked_entries_def collection_docs_def in_collection_def field_path_def
        entry_timestamp_def)

text \<open>
  \<open>persistBatch\<close> stores an entry as the document itself, with \<open>created_timestamp\<close>
  at the top level, while the query ranks \<open>body.created_timestamp\<close>. A store filled by
  \<open>persistBatch\<close> alone therefore has no ranked document, and the resolver falls back
  although an entry with a timestamp is stored.
\<close>

lemma cursor_ignores_persisted_entries:
  "fst (persistBatch mock_env [ledger_entry 1 1699990000] empty_world) = Inr 1 \<and>
   store (snd (persistBatch mock_env [ledger_entry 1 1699990000] empty_world)) =
     [(''events/etsy/ledgerentry/1'', JObj (ledger_entry 1 1699990000))] \<and>
   fst (getLastSyncTimestamp mock_env
          (snd (persistBatch mock_env [ledger_entry 1 1699990000] empty_world))) =
     Inr (JNum 1697408000) \<and>
   fst (getLastSyncTimestamp_p1 mock_env
          (snd (persistBatch mock_env [ledger_entry 1 1699990000] empty_world))) = Inr JNull"
  by (simp add: persistBatch_ok cursor_v1 cursor_p1 query_result mock_env_def empty_world_def
        ledger_entry_def ledger_writes_def has_entry_id_def entry_path_def show_int_def
        apply_writes_def set_merge_def ranked_entries_def collection_docs_def in_collection_def
        field_path_def)

lemma external_calls_logger:
  "external_calls (trace (logger l m a w)) = external_calls (trace w)"
  by (simp add: external_calls_def logger_def emit_def)

text \<open>
  C8, as amended. In the variant that has the enable flag (unnamed/part_001), when
  \<open>ETSY_SYNC_ENABLED\<close> is absent or is anything but \<open>true\<close> in any letter case, the
  job returns after one log line: no remote fetch, no store query, no write.
\<close>

theorem disabled_sync_does_nothing:
  "(config env ''ETSY_SYNC_ENABLED'' = None \<or>
    (\<exists>v. config env ''ETSY_SYNC_ENABLED'' = Some v \<and> toLowerCase v \<noteq> ''true'')) \<longrightarrow>
     etsyLedgerSync_p1 env w =
       Some (Inr (),
             w\<lparr>trace := trace w @
                [Log Info ''Etsy ledger sync is disabled via configuration'' []]\<rparr>) \<and>
     external_calls
       (trace w @ [Log Info ''Etsy ledger sync is disabled via configuration'' []]) =
     external_calls (trace w)"
  by (auto simp add: etsyLedgerSync_p1_def param_value_def toLowerCase_def
        logger_def emit_def external_calls_def)

theorem disabled_sync_does_nothing_witness:
  "config unflagged_env ''ETSY_SYNC_ENABLED'' = None \<and>
   config shop_env ''ETSY_SYNC_ENABLED'' = Some ''false'' \<and>
   config shouting_env ''ETSY_SYNC_ENABLED'' = Some ''FALSE'' \<and>
   toLowerCase ''FALSE'' \<noteq> ''true'' \<and>
   etsyLedgerSync_p1 unflagged_env empty_world =
     Some (Inr (), empty_world\<lparr>trace :=
       [Log Info ''Etsy ledger sync is disabled via configuration'' []]\<rparr>) \<and>
   etsyLedgerSync_p1 shop_env empty_world =
     Some (Inr (), empty_world\<lparr>trace :=
       [Log Info ''Etsy ledger sync is disabled via configuration'' []]\<rparr>) \<and>
   etsyLedgerSync_p1 shouting_env empty_world =
     Some (Inr (), empty_world\<lparr>trace :=
       [Log Info ''Etsy ledger sync is disabled via configuration'' []]\<rparr>)"
  using disabled_sync_does_nothing [of unflagged_env empty_world]
    disabled_sync_does_nothing [of shop_env empty_world]
    disabled_sync_does_nothing [of shouting_env empty_world]
  by (auto simp add: unflagged_env_def shop_env_def shouting_env_def mock_env_def
        empty_world_def toLowerCase_def)

lemma fetch_empty_page:
  assumes "api env = (\<lambda>r f. Inr (Some []))"
  shows "fetchAndPersistLedgerEntries env shop mn mx w =
    Some (Inr 0,
      w\<lparr>trace := trace w @
         [Log Info ''Fetching ledger entries: offset=${offset}, limit=${limit}'' [JNum 0, JNum 100],
          ApiCall (page_request shop mn mx 0) (Some 0),
          Log Info ''Received ${entries.length} entries'' [JNum 0],
          Log Info ''Total entries persisted: ${totalPersisted}'' [JNum 0]]\<rparr>)"
proof -
  have e: "page_entries env shop mn mx 0 = []"
    by (simp add: page_entries_def assms results_or_empty_def)
  have s: "short_page env shop mn mx 0"
    by (simp add: short_page_def page_fetched_def e assms)
  have p: "persist_ok env (page_entries env shop mn mx 0)"
    by (simp add: persist_ok_def e)
  have c: "persisted_count env shop mn mx (Suc 0) = 0"
    by (simp add: persisted_count_def e)
  show ?thesis
    using fetch_short_run [of 0 env shop mn mx w, OF _ s p] c
    by (simp add: pages_world_def page_world_def page_effects_def e logger_def emit_def
          ledger_writes_def dropped_warnings_def persisted_effects_def apply_writes_def)
qed

lemma sync_calls_without_flag:
  assumes "api env = (\<lambda>r f. Inr (Some []))" and "query_failure env = None"
    and "clock env = (\<lambda>n. 1700000000000)" and "config env ''ETSY_SHOP_ID'' = Some ''12345''"
  shows "map_option (external_calls \<circ> trace \<circ> snd) (etsyLedgerSync env empty_world) =
    Some [Query ''events/etsy/ledgerentry'' ''body.created_timestamp'',
          ApiCall (page_request 12345 (JNum 1697408000) (JNum 1700000000) 0) (Some 0)]"
  by (simp add: etsyLedgerSync_def etsyLedgerSync_try_def param_value_def assms parseInt_def
        is_space_def is_digit_def digits_value_def getLastSyncTimestamp_def
        latest_entry_query_def orderBy_desc_limit1_def collection_docs_def Date_now_def
        thirty_days_before_def fetch_empty_page [OF assms(1)] empty_world_def logger_def
        emit_def external_calls_def Let_def)

text \<open>
  C8, as stated, fails for the job of functions/src/etsy/ledgerSync.ts, which has no enable
  flag: with the flag set to \<open>false\<close>, or absent, it queries the store and calls the
  remote API.
\<close>

theorem etsyLedgerSync_counterexample:
  "config shop_env ''ETSY_SYNC_ENABLED'' = Some ''false'' \<and>
   map_option (external_calls \<circ> trace \<circ> snd) (etsyLedgerSync shop_env empty_world) =
     Some [Query ''events/etsy/ledgerentry'' ''body.created_timestamp'',
           ApiCall (page_request 12345 (JNum 1697408000) (JNum 1700000000) 0) (Some 0)] \<and>
   config unflagged_env ''ETSY_SYNC_ENABLED'' = None \<and>
   map_option (external_calls \<circ> trace \<circ> snd) (etsyLedgerSync unflagged_env empty_world) =
     Some [Query ''events/etsy/ledgerentry'' ''body.created_timestamp'',
           ApiCall (page_request 12345 (JNum 1697408000) (JNum 1700000000) 0) (Some 0)]"
  using sync_calls_without_flag [of shop_env] sync_calls_without_flag [of unflagged_env]
  by (simp add: shop_env_def unflagged_env_def mock_env_def)

end
